theory Spec2Isabelle
  imports Main
begin

section \<open>Conversation memory of the weather bot notebooks\<close>

text \<open>
  The notebooks keep the conversation in \<^verbatim>\<open>memory["history"]\<close>, a Python list of
  \<^verbatim>\<open>OpenAIChatMessage\<close> objects, and fold the streamed \<^verbatim>\<open>OpenAIChatDelta\<close> chunks of the
  model into it. Both classes come from the chain library; the notebooks use three fields
  of each. A role is a Python string; a delta's role and both names may be \<^verbatim>\<open>None\<close>.
\<close>

record OpenAIChatMessage =
  msg_role :: string
  msg_content :: string
  msg_name :: "string option"

record OpenAIChatDelta =
  delta_role :: "string option"
  delta_content :: string
  delta_name :: "string option"

text \<open>
  Python exceptions are values. \<open>str_of\<close> is Python's \<^verbatim>\<open>str(err)\<close>: the message the
  exception was raised with. \<open>OtherError\<close> stands for any exception the notebooks' own
  code does not raise (a transport failure of the model service, for instance).
\<close>

datatype py_error =
  IndexError string
  | TypeError string
  | JSONDecodeError string
  | OtherError string

fun str_of :: "py_error \<Rightarrow> string" where
  "str_of (IndexError m) = m"
| "str_of (TypeError m) = m"
| "str_of (JSONDecodeError m) = m"
| "str_of (OtherError m) = m"

subsection \<open>save_message_to_memory and update_delta_on_memory\<close>

text \<open>
  \<^verbatim>\<open>
  def save_message_to_memory(message):
      memory["history"].append(message)
      return message
  \<close>
  The list is passed in and the grown list is returned with the message.
\<close>

definition save_message_to_memory ::
  "OpenAIChatMessage list \<Rightarrow> OpenAIChatMessage \<Rightarrow> OpenAIChatMessage list \<times> OpenAIChatMessage" where
  "save_message_to_memory hist message = (hist @ [message], message)"

text \<open>
  \<^verbatim>\<open>
  def update_delta_on_memory(delta):
      if memory["history"][-1].role != delta.role and delta.role is not None:
          memory["history"].append(
              OpenAIChatMessage(role=delta.role, content=delta.content, name=delta.name))
      else:
          memory["history"][-1].content += delta.content
      return delta
  \<close>
  \<^verbatim>\<open>memory["history"][-1]\<close> is evaluated first in the condition, so on an empty list the
  function raises \<^verbatim>\<open>IndexError\<close> before it looks at the delta. The method
  \<^verbatim>\<open>Memory.update_delta\<close> of the FastAPI notebook has the same body.
\<close>

definition update_delta_on_memory ::
  "OpenAIChatMessage list \<Rightarrow> OpenAIChatDelta \<Rightarrow> py_error + (OpenAIChatMessage list \<times> OpenAIChatDelta)" where
  "update_delta_on_memory hist delta =
     (if hist = [] then Inl (IndexError ''list index out of range'')
      else if Some (msg_role (last hist)) \<noteq> delta_role delta \<and> delta_role delta \<noteq> None
      then Inr (hist @
                  [\<lparr>msg_role = the (delta_role delta), msg_content = delta_content delta,
                    msg_name = delta_name delta\<rparr>],
                delta)
      else Inr (butlast hist @
                  [(last hist)\<lparr>msg_content := msg_content (last hist) @ delta_content delta\<rparr>],
                delta))"

text \<open>
  A chain's \<^verbatim>\<open>.map(update_delta_on_memory)\<close> applies the function to the chunks of a stream
  one after the other; an exception ends the stream.
\<close>

fun update_deltas_on_memory ::
  "OpenAIChatMessage list \<Rightarrow> OpenAIChatDelta list \<Rightarrow> py_error + (OpenAIChatMessage list \<times> OpenAIChatDelta list)" where
  "update_deltas_on_memory hist [] = Inr (hist, [])"
| "update_deltas_on_memory hist (delta # deltas) =
     (case update_delta_on_memory hist delta of
        Inl e \<Rightarrow> Inl e
      | Inr (hist', delta') \<Rightarrow>
          (case update_deltas_on_memory hist' deltas of
             Inl e \<Rightarrow> Inl e
           | Inr (hist'', deltas') \<Rightarrow> Inr (hist'', delta' # deltas')))"

subsection \<open>The weather function and its JSON arguments\<close>

text \<open>
  What \<^verbatim>\<open>json.loads\<close> returns: \<^verbatim>\<open>None\<close>, a bool, an int, a float (kept as its literal), a
  string, a list, or a dict, whose items are kept in insertion order.
\<close>

datatype json =
  JNull
  | JBool bool
  | JInt int
  | JFloat string
  | JStr string
  | JArr "json list"
  | JObj "(string \<times> json) list"

text \<open>Python's \<^verbatim>\<open>type(x).__name__\<close>, which the interpreter prints in a \<^verbatim>\<open>TypeError\<close>.\<close>

fun type_name :: "json \<Rightarrow> string" where
  "type_name JNull = ''NoneType''"
| "type_name (JBool b) = ''bool''"
| "type_name (JInt i) = ''int''"
| "type_name (JFloat f) = ''float''"
| "type_name (JStr s) = ''str''"
| "type_name (JArr xs) = ''list''"
| "type_name (JObj kvs) = ''dict''"

text \<open>
  The collaborators of a notebook are parameters of the model: Python's \<^verbatim>\<open>json\<close> module and
  the model service behind \<^verbatim>\<open>OpenAIChatChain\<close>. \<open>completion c chain messages\<close> is the finite
  stream of deltas the chain named \<open>chain\<close> produces for the messages it sends; a function
  call arrives as one delta of role \<^verbatim>\<open>function\<close> whose content is the argument string.
\<close>

record collaborators =
  json_loads :: "string \<Rightarrow> py_error + json"
  json_dumps :: "json \<Rightarrow> string"
  completion :: "string \<Rightarrow> OpenAIChatMessage list \<Rightarrow> OpenAIChatDelta list"

text \<open>
  \<^verbatim>\<open>
  def get_current_weather(location, format="celsius"):
      result = {
          "location": location,
          "forecast": "sunny",
          "temperature": "25 C" if format == "celsius" else "77 F",
      }
      return OpenAIChatDelta(
          role="function", name="get_current_weather", content=json.dumps(result))
  \<close>
  The function is called as \<^verbatim>\<open>get_current_weather(**kwargs)\<close>. Python binds the keywords
  first and rejects the first one that names no parameter, then reports a missing
  \<^verbatim>\<open>location\<close>. The annotations are not checked: any JSON value is accepted for either
  parameter.
\<close>

definition get_current_weather ::
  "collaborators \<Rightarrow> (string \<times> json) list \<Rightarrow> py_error + OpenAIChatDelta" where
  "get_current_weather c kwargs =
     (case filter (\<lambda>k. k \<noteq> ''location'' \<and> k \<noteq> ''format'') (map fst kwargs) of
        k # ks \<Rightarrow>
          Inl (TypeError
                 (''get_current_weather() got an unexpected keyword argument '' @
                  [CHR 0x27] @ k @ [CHR 0x27]))
      | [] \<Rightarrow>
          (case map_of kwargs ''location'' of
             None \<Rightarrow>
               Inl (TypeError
                      (''get_current_weather() missing 1 required positional argument: '' @
                       [CHR 0x27] @ ''location'' @ [CHR 0x27]))
           | Some location \<Rightarrow>
               (let format = (case map_of kwargs ''format'' of None \<Rightarrow> JStr ''celsius'' | Some f \<Rightarrow> f);
                    result = JObj [(''location'', location),
                                   (''forecast'', JStr ''sunny''),
                                   (''temperature'',
                                      JStr (if format = JStr ''celsius'' then ''25 C'' else ''77 F''))]
                in Inr \<lparr>delta_role = Some ''function'', delta_content = json_dumps c result,
                         delta_name = Some ''get_current_weather''\<rparr>)))"

text \<open>
  \<^verbatim>\<open>get_current_weather(**json.loads(content))\<close>: the decoder's exception comes first; a
  decoded value that is not a dict cannot be unpacked by \<^verbatim>\<open>**\<close>, which Python 3.9 (the
  notebooks' kernel) reports with the function's qualified name.
\<close>

definition call_get_current_weather :: "collaborators \<Rightarrow> string \<Rightarrow> py_error + OpenAIChatDelta" where
  "call_get_current_weather c content =
     (case json_loads c content of
        Inl e \<Rightarrow> Inl e
      | Inr (JObj kwargs) \<Rightarrow> get_current_weather c kwargs
      | Inr v \<Rightarrow>
          Inl (TypeError
                 (''__main__.get_current_weather() argument after ** must be a mapping, not '' @
                  type_name v)))"

text \<open>Python's \<^verbatim>\<open>needle in s\<close> on strings.\<close>

fun startswith :: "string \<Rightarrow> string \<Rightarrow> bool" where
  "startswith s [] = True"
| "startswith [] (p # ps) = False"
| "startswith (x # xs) (p # ps) = (x = p \<and> startswith xs ps)"

fun str_in :: "string \<Rightarrow> string \<Rightarrow> bool" where
  "str_in needle [] = (needle = [])"
| "str_in needle (x # xs) = (startswith (x # xs) needle \<or> str_in needle xs)"

section \<open>Chains\<close>

text \<open>
  A notebook session is the global \<^verbatim>\<open>memory["history"]\<close> together with what an observer of
  the model service sees: \<open>Call chain messages\<close> when the chain named \<open>chain\<close> sends its
  messages to the service, and \<open>Chunk chain delta\<close> when a delta of that chain's stream is
  consumed.
\<close>

datatype event =
  Call string "OpenAIChatMessage list"
  | Chunk string OpenAIChatDelta

record session =
  history :: "OpenAIChatMessage list"
  trace :: "event list"

text \<open>
  Running a chain gives the session it leaves, the outputs it has yielded, and the
  exception that ended it, if one did.
\<close>

type_synonym 'a run = "session \<times> 'a list \<times> py_error option"

text \<open>
  Modelled from the spec: \<^verbatim>\<open>OpenAIChatChain\<close> is part of the chain library, which the
  notebooks only import. Calling the chain sends the messages to the model service, whose
  answer is a lazy, single-pass, finite sequence of deltas.
\<close>

definition call :: "collaborators \<Rightarrow> string \<Rightarrow> OpenAIChatMessage list \<Rightarrow> session \<Rightarrow> session \<times> OpenAIChatDelta list" where
  "call c chain messages s = (s\<lparr>trace := trace s @ [Call chain messages]\<rparr>, completion c chain messages)"

definition receive :: "string \<Rightarrow> OpenAIChatDelta \<Rightarrow> session \<Rightarrow> session" where
  "receive chain delta s = s\<lparr>trace := trace s @ [Chunk chain delta]\<rparr>"

text \<open>
  Modelled from the spec: the library's streaming (\<^verbatim>\<open>map\<close>, \<^verbatim>\<open>pipe\<close>, an \<^verbatim>\<open>async for\<close> over a
  chain) is single-threaded and cooperative, with no buffering: each unit of a stream
  goes through every later stage before the next unit is produced, in arrival order, and
  an exception ends the stream. \<open>async_for body s xs\<close> runs \<open>body\<close> on each unit in turn,
  threading the session and collecting what the body yields.
\<close>

fun async_for :: "(session \<Rightarrow> 'a \<Rightarrow> 'b run) \<Rightarrow> session \<Rightarrow> 'a list \<Rightarrow> 'b run" where
  "async_for body s [] = (s, [], None)"
| "async_for body s (x # xs) =
     (case body s x of
        (s', ys, Some e) \<Rightarrow> (s', ys, Some e)
      | (s', ys, None) \<Rightarrow>
          (case async_for body s' xs of (s'', zs, r) \<Rightarrow> (s'', ys @ zs, r)))"

text \<open>
  Modelled from the spec: the library's \<^verbatim>\<open>and_then\<close> collects every output of the first
  chain and only then calls the next function with the list of them, whose outputs are
  the outputs of the whole; an exception of the first chain is the exception of the
  whole.
\<close>

definition and_then :: "'a run \<Rightarrow> (session \<Rightarrow> 'a list \<Rightarrow> 'b run) \<Rightarrow> 'b run" where
  "and_then first next_fn =
     (case first of
        (s, outputs, Some e) \<Rightarrow> (s, [], Some e)
      | (s, outputs, None) \<Rightarrow> next_fn s outputs)"

text \<open>\<^verbatim>\<open>.map(update_delta_on_memory)\<close>, as one stage applied to one unit.\<close>

definition map_update_delta_on_memory :: "session \<Rightarrow> OpenAIChatDelta \<Rightarrow> OpenAIChatDelta run" where
  "map_update_delta_on_memory s delta =
     (case update_delta_on_memory (history s) delta of
        Inl e \<Rightarrow> (s, [], Some e)
      | Inr (hist, delta') \<Rightarrow> (s\<lparr>history := hist\<rparr>, [delta'], None))"

subsection \<open>The weather bot\<close>

text \<open>
  \<^verbatim>\<open>
  .map(
      lambda delta: get_current_weather(**json.loads(delta.content))
      if delta.role == "function" and delta.name == "get_current_weather"
      else delta
  )
  \<close>
  The lambda runs in the notebook, where \<^verbatim>\<open>memory\<close> is a global: it is given the session
  and returns it with its result.
\<close>

definition maybe_dispatch ::
  "collaborators \<Rightarrow> session \<Rightarrow> OpenAIChatDelta \<Rightarrow> session \<times> (py_error + OpenAIChatDelta)" where
  "maybe_dispatch c s delta =
     (if delta_role delta = Some ''function'' \<and> delta_name delta = Some ''get_current_weather''
      then (s, call_get_current_weather c (delta_content delta))
      else (s, Inr delta))"

text \<open>One delta of the model's stream through the two maps of \<^verbatim>\<open>weather_chain\<close>.\<close>

definition weather_chain_chunk :: "collaborators \<Rightarrow> session \<Rightarrow> OpenAIChatDelta \<Rightarrow> OpenAIChatDelta run" where
  "weather_chain_chunk c s delta =
     (case maybe_dispatch c (receive ''WeatherChain'' delta s) delta of
        (s', Inl e) \<Rightarrow> (s', [], Some e)
      | (s', Inr delta') \<Rightarrow> map_update_delta_on_memory s' delta')"

text \<open>
  \<^verbatim>\<open>
  weather_chain = (
      debug(OpenAIChatChain[str, OpenAIChatDelta](
          "WeatherChain",
          lambda user_input: [
              *memory["history"],
              save_message_to_memory(OpenAIChatMessage(role="user", content=user_input)),
          ], ...))
      .map(<the dispatch lambda>)
      .map(update_delta_on_memory)
  )
  \<close>
  The list display unpacks the history before it saves the user's message, so the
  messages sent are the old history followed by the new message. \<^verbatim>\<open>debug\<close> only prints.
\<close>

definition weather_chain :: "collaborators \<Rightarrow> session \<Rightarrow> string \<Rightarrow> OpenAIChatDelta run" where
  "weather_chain c s user_input =
     (case save_message_to_memory (history s)
             \<lparr>msg_role = ''user'', msg_content = user_input, msg_name = None\<rparr> of
        (hist, message) \<Rightarrow>
          (case call c ''WeatherChain'' (history s @ [message]) (s\<lparr>history := hist\<rparr>) of
             (s', stream) \<Rightarrow> async_for (weather_chain_chunk c) s' stream))"

text \<open>
  \<^verbatim>\<open>
  function_reply_chain = debug(
      OpenAIChatChain[None, OpenAIChatDelta](
          "FunctionReplyChain", lambda _: memory["history"], ...)
  ).map(update_delta_on_memory)
  \<close>
\<close>

definition function_reply_chain :: "collaborators \<Rightarrow> session \<Rightarrow> OpenAIChatDelta run" where
  "function_reply_chain c s =
     (case call c ''FunctionReplyChain'' (history s) s of
        (s', stream) \<Rightarrow>
          async_for (\<lambda>s delta. map_update_delta_on_memory (receive ''FunctionReplyChain'' delta s) delta)
            s' stream)"

text \<open>
  \<^verbatim>\<open>
  weather_bot = weather_chain.and_then(
      lambda outputs: function_reply_chain(None)
      if list(outputs)[-1].role == "function"
      else as_async_generator(*outputs)
  )
  \<close>
  \<^verbatim>\<open>list(outputs)[-1]\<close> raises \<^verbatim>\<open>IndexError\<close> when the first chain has yielded nothing.
\<close>

definition reply_if_function :: "collaborators \<Rightarrow> session \<Rightarrow> OpenAIChatDelta list \<Rightarrow> OpenAIChatDelta run" where
  "reply_if_function c s outputs =
     (if outputs = [] then (s, [], Some (IndexError ''list index out of range''))
      else if delta_role (last outputs) = Some ''function'' then function_reply_chain c s
      else (s, outputs, None))"

definition weather_bot :: "collaborators \<Rightarrow> session \<Rightarrow> string \<Rightarrow> OpenAIChatDelta run" where
  "weather_bot c s user_input = and_then (weather_chain c s user_input) (reply_if_function c)"

subsection \<open>The weather bot with error handling\<close>

text \<open>
  \<^verbatim>\<open>
  .map(
      lambda delta: save_message_to_memory(
          OpenAIChatMessage(role="function", name="get_current_weather", content=delta.content)
      )
      and get_current_weather(**json.loads(delta.content))
      if delta.role == "function" and delta.name == "get_current_weather"
      else delta
  )
  \<close>
  The conditional expression binds weakest. When the condition holds the message is
  saved first; the saved message is an object, hence true, so \<^verbatim>\<open>and\<close> goes on to call
  the function and gives its result.
\<close>

definition maybe_dispatch_saving ::
  "collaborators \<Rightarrow> session \<Rightarrow> OpenAIChatDelta \<Rightarrow> session \<times> (py_error + OpenAIChatDelta)" where
  "maybe_dispatch_saving c s delta =
     (if delta_role delta = Some ''function'' \<and> delta_name delta = Some ''get_current_weather''
      then
        (case save_message_to_memory (history s)
                \<lparr>msg_role = ''function'', msg_content = delta_content delta,
                  msg_name = Some ''get_current_weather''\<rparr> of
           (hist, message) \<Rightarrow> (s\<lparr>history := hist\<rparr>, call_get_current_weather c (delta_content delta)))
      else (s, Inr delta))"

text \<open>
  \<^verbatim>\<open>
  function_error_chain = OpenAIChatChain[Tuple[str, Exception], OpenAIChatDelta](
      "FunctionErrorChain",
      lambda name_and_err: [
          *memory["history"],
          save_message_to_memory(
              OpenAIChatMessage(role="user", content=str(name_and_err[1]))),
      ], ...)
  \<close>
  The chain has no map of its own: what it returns is the stream still to be consumed.
\<close>

definition function_error_chain ::
  "collaborators \<Rightarrow> session \<Rightarrow> string \<times> py_error \<Rightarrow> session \<times> OpenAIChatDelta list" where
  "function_error_chain c s name_and_err =
     (case save_message_to_memory (history s)
             \<lparr>msg_role = ''user'', msg_content = str_of (snd name_and_err), msg_name = None\<rparr> of
        (hist, message) \<Rightarrow>
          call c ''FunctionErrorChain'' (history s @ [message]) (s\<lparr>history := hist\<rparr>))"

text \<open>
  \<^verbatim>\<open>
  def error_handler(err):
      # Try to recover from the error if it happened on the function calling
      if "get_current_weather" in str(err):
          x = function_error_chain(("get_current_weather", err))
          return x
      else:
          # Otherwise just re-raise it
          raise err
  \<close>
\<close>

definition error_handler ::
  "collaborators \<Rightarrow> session \<Rightarrow> py_error \<Rightarrow> session \<times> (py_error + OpenAIChatDelta list)" where
  "error_handler c s err =
     (if str_in ''get_current_weather'' (str_of err)
      then (case function_error_chain c s (''get_current_weather'', err) of
              (s', stream) \<Rightarrow> (s', Inr stream))
      else (s, Inl err))"

text \<open>
  \<^verbatim>\<open>
  weather_chain = debug(
      OpenAIChatChain[str, OpenAIChatDelta](
          "WeatherChain",
          lambda user_input: [
              OpenAIChatMessage(role="system", content="You are a chatbot ..."),
              *memory["history"],
              save_message_to_memory(OpenAIChatMessage(role="user", content=user_input)),
          ], ...)
      .map(<the saving dispatch lambda>)
      .on_error(error_handler)
      .map(update_delta_on_memory)
  )
  \<close>
  The saving dispatch lambda comes before \<^verbatim>\<open>on_error\<close>, the fold after it.
\<close>

text \<open>
  Modelled from the spec: the library's \<^verbatim>\<open>on_error\<close> is not part of the notebooks. When the
  chain before it raises, the handler is called with the exception in place of
  propagating it: what the handler returns is streamed on in place of the rest of the
  first stream, and what it raises ends the chain. The map after \<^verbatim>\<open>on_error\<close> folds the
  units of either stream; its own exceptions are not handled.
\<close>

fun weather_chain_err_stream ::
  "collaborators \<Rightarrow> session \<Rightarrow> OpenAIChatDelta list \<Rightarrow> OpenAIChatDelta run" where
  "weather_chain_err_stream c s [] = (s, [], None)"
| "weather_chain_err_stream c s (delta # deltas) =
     (case maybe_dispatch_saving c (receive ''WeatherChain'' delta s) delta of
        (s1, Inl e) \<Rightarrow>
          (case error_handler c s1 e of
             (s2, Inl e') \<Rightarrow> (s2, [], Some e')
           | (s2, Inr recovery) \<Rightarrow>
               async_for
                 (\<lambda>s d. map_update_delta_on_memory (receive ''FunctionErrorChain'' d s) d)
                 s2 recovery)
      | (s1, Inr delta') \<Rightarrow>
          (case map_update_delta_on_memory s1 delta' of
             (s2, ys, Some e) \<Rightarrow> (s2, ys, Some e)
           | (s2, ys, None) \<Rightarrow>
               (case weather_chain_err_stream c s2 deltas of
                  (s3, zs, r) \<Rightarrow> (s3, ys @ zs, r))))"

definition system_message :: OpenAIChatMessage where
  "system_message =
     \<lparr>msg_role = ''system'',
      msg_content = ''You are a chatbot that has access to real-time weather information'',
      msg_name = None\<rparr>"

definition weather_chain_err :: "collaborators \<Rightarrow> session \<Rightarrow> string \<Rightarrow> OpenAIChatDelta run" where
  "weather_chain_err c s user_input =
     (case save_message_to_memory (history s)
             \<lparr>msg_role = ''user'', msg_content = user_input, msg_name = None\<rparr> of
        (hist, message) \<Rightarrow>
          (case call c ''WeatherChain'' (system_message # history s @ [message])
                  (s\<lparr>history := hist\<rparr>) of
             (s', stream) \<Rightarrow> weather_chain_err_stream c s' stream))"

text \<open>The bot is composed as before: the same \<^verbatim>\<open>and_then\<close> with the same lambda.\<close>

definition weather_bot_err :: "collaborators \<Rightarrow> session \<Rightarrow> string \<Rightarrow> OpenAIChatDelta run" where
  "weather_bot_err c s user_input = and_then (weather_chain_err c s user_input) (reply_if_function c)"



subsection \<open>The generator of the weather bot served with FastAPI\<close>

text \<open>
  \<^verbatim>\<open>weather_bot(memory)\<close> builds the same \<^verbatim>\<open>weather_chain\<close> on the methods of a \<^verbatim>\<open>Memory\<close>
  object, without \<^verbatim>\<open>debug\<close>; its \<^verbatim>\<open>function_reply_chain\<close> has no map. The bot is
  \<^verbatim>\<open>
  async def reply_function_call(stream):
      async for output in stream:
          if output.role == "function":
              async for output in function_reply_chain(None):
                  yield output
          else:
              yield output

  weather_bot = (
      weather_chain.pipe(reply_function_call)
      .map(memory.update_delta)
      .map(lambda delta: delta.content)
  )
  \<close>
  Only the generator is modelled. The library's \<^verbatim>\<open>pipe\<close> hands it the stream of the units
  of \<^verbatim>\<open>weather_chain\<close>; the maps before and after it are other stages of the chain, which
  the library runs beside the generator, and the notebook does not say how their folds
  fall between its steps. So the history is not followed through the loop:
  \<^verbatim>\<open>function_reply_chain\<close> sends the history the session holds when it is called. What the
  generator does by itself is read its stream unit by unit: a unit it reads is recorded
  as a \<open>Chunk\<close> of \<^verbatim>\<open>WeatherChain\<close>, a delta of the reply as a \<open>Chunk\<close> of
  \<^verbatim>\<open>FunctionReplyChain\<close>. \<open>reply_function_call_unit\<close> is the body of the outer loop.
\<close>

definition reply_function_call_unit ::
  "collaborators \<Rightarrow> session \<Rightarrow> OpenAIChatDelta \<Rightarrow> OpenAIChatDelta run" where
  "reply_function_call_unit c s output =
     (if delta_role output = Some ''function''
      then (case call c ''FunctionReplyChain'' (history s) (receive ''WeatherChain'' output s) of
              (s', reply) \<Rightarrow>
                async_for (\<lambda>s out. (receive ''FunctionReplyChain'' out s, [out], None)) s' reply)
      else (receive ''WeatherChain'' output s, [output], None))"

definition reply_function_call ::
  "collaborators \<Rightarrow> session \<Rightarrow> OpenAIChatDelta list \<Rightarrow> OpenAIChatDelta run" where
  "reply_function_call c s stream = async_for (reply_function_call_unit c) s stream"

subsection \<open>Reading a trace\<close>

text \<open>The requests a trace holds, in order: the chain that called and the messages it sent.\<close>

fun calls_of :: "event list \<Rightarrow> (string \<times> OpenAIChatMessage list) list" where
  "calls_of [] = []"
| "calls_of (Call chain messages # es) = (chain, messages) # calls_of es"
| "calls_of (Chunk chain delta # es) = calls_of es"

fun is_chunk_of :: "string \<Rightarrow> event \<Rightarrow> bool" where
  "is_chunk_of chain (Call chain' messages) = False"
| "is_chunk_of chain (Chunk chain' delta) = (chain' = chain)"

text \<open>
  The first stream is drained before the follow-up: once \<^verbatim>\<open>FunctionReplyChain\<close> has been
  called, no delta of the \<^verbatim>\<open>WeatherChain\<close> stream is consumed any more.
\<close>

fun drained_before_reply :: "event list \<Rightarrow> bool" where
  "drained_before_reply [] = True"
| "drained_before_reply (Call chain messages # es) =
     (if chain = ''FunctionReplyChain''
      then list_all (\<lambda>e. \<not> is_chunk_of ''WeatherChain'' e) es
      else drained_before_reply es)"
| "drained_before_reply (Chunk chain delta # es) = drained_before_reply es"

subsection \<open>The documented scenarios\<close>

text \<open>
  The notebooks start from \<^verbatim>\<open>memory = Memory(history=[])\<close>. Their scenarios are replayed on
  collaborators that answer as the notebooks' outputs show: \<open>example_loads\<close> is
  \<^verbatim>\<open>json.loads\<close> on the two argument objects of the scenarios and on the empty document,
  which Python rejects with the message below (no other document occurs in a scenario;
  the table gives it the same answer); \<open>example_dumps\<close> is \<^verbatim>\<open>json.dumps\<close> on the one result
  the weather function builds for Amsterdam. The model service answers the
  \<^verbatim>\<open>WeatherChain\<close> with a given stream and every other chain with a two-chunk assistant
  reply.
\<close>

definition new_session :: session where
  "new_session = \<lparr>history = [], trace = []\<rparr>"

definition amsterdam_arguments :: string where
  \<open>amsterdam_arguments = ''{"location":"Amsterdam"}''\<close>

definition amsterdam_result :: string where
  \<open>amsterdam_result = ''{"location": "Amsterdam", "forecast": "sunny", "temperature": "25 C"}''\<close>

definition example_loads :: "string \<Rightarrow> py_error + json" where
  "example_loads document =
     (if document = amsterdam_arguments then Inr (JObj [(''location'', JStr ''Amsterdam'')])
      else if document = ''{}'' then Inr (JObj [])
      else Inl (JSONDecodeError ''Expecting value: line 1 column 1 (char 0)''))"

definition example_dumps :: "json \<Rightarrow> string" where
  "example_dumps v =
     (if v = JObj [(''location'', JStr ''Amsterdam''), (''forecast'', JStr ''sunny''),
                   (''temperature'', JStr ''25 C'')]
      then amsterdam_result
      else ''null'')"

definition assistant_reply :: "OpenAIChatDelta list" where
  "assistant_reply =
     [\<lparr>delta_role = Some ''assistant'', delta_content = ''It is '', delta_name = None\<rparr>,
      \<lparr>delta_role = None, delta_content = ''sunny.'', delta_name = None\<rparr>]"

definition example :: "OpenAIChatDelta list \<Rightarrow> collaborators" where
  "example first_stream =
     \<lparr>json_loads = example_loads,
      json_dumps = example_dumps,
      completion = (\<lambda>chain messages. if chain = ''WeatherChain'' then first_stream else assistant_reply)\<rparr>"



definition function_call :: "string \<Rightarrow> OpenAIChatDelta" where
  "function_call arguments =
     \<lparr>delta_role = Some ''function'', delta_content = arguments,
      delta_name = Some ''get_current_weather''\<rparr>"

section \<open>Properties of the reducer\<close>

lemma update_delta_on_memory_append:
  assumes "hist \<noteq> []" and "delta_role delta = Some r" and "msg_role (last hist) \<noteq> r"
  shows "update_delta_on_memory hist delta =
           Inr (hist @ [\<lparr>msg_role = r, msg_content = delta_content delta, msg_name = delta_name delta\<rparr>],
                delta)"
  using assms by (simp add: update_delta_on_memory_def)

lemma update_delta_on_memory_extend:
  assumes "hist \<noteq> []"
    and "delta_role delta = None \<or> delta_role delta = Some (msg_role (last hist))"
  shows "update_delta_on_memory hist delta =
           Inr (butlast hist @
                  [(last hist)\<lparr>msg_content := msg_content (last hist) @ delta_content delta\<rparr>],
                delta)"
  using assms by (auto simp add: update_delta_on_memory_def)

lemma update_delta_on_memory_cases:
  assumes "hist \<noteq> []"
  obtains (append) r where "delta_role delta = Some r" and "msg_role (last hist) \<noteq> r"
    | (extend) "delta_role delta = None \<or> delta_role delta = Some (msg_role (last hist))"
  by (cases "delta_role delta") auto

lemma update_deltas_extend:
  assumes "hist \<noteq> []"
    and "\<forall>d\<in>set deltas. delta_role d = None \<or> delta_role d = Some (msg_role (last hist))"
  shows "update_deltas_on_memory hist deltas =
           Inr (butlast hist @
                  [(last hist)\<lparr>msg_content := msg_content (last hist) @ concat (map delta_content deltas)\<rparr>],
                deltas)"
  using assms
proof (induction deltas arbitrary: hist)
  case Nil
  then show ?case by simp
next
  case (Cons d ds)
  let ?h = "butlast hist @ [(last hist)\<lparr>msg_content := msg_content (last hist) @ delta_content d\<rparr>]"
  from Cons.prems have step: "update_delta_on_memory hist d = Inr (?h, d)"
    by (simp add: update_delta_on_memory_extend)
  have "update_deltas_on_memory ?h ds =
     Inr (butlast ?h @ [(last ?h)\<lparr>msg_content := msg_content (last ?h) @ concat (map delta_content ds)\<rparr>], ds)"
    using Cons.prems by (intro Cons.IH) auto
  with step show ?case by simp
qed

lemma update_delta_on_memory_total:
  assumes "hist \<noteq> []"
  shows "\<exists>hist'. update_delta_on_memory hist delta = Inr (hist', delta) \<and> hist' \<noteq> []"
  using assms by (simp add: update_delta_on_memory_def)

lemma update_deltas_total:
  assumes "hist \<noteq> []"
  shows "\<exists>hist'. update_deltas_on_memory hist deltas = Inr (hist', deltas) \<and> hist' \<noteq> []"
  using assms
proof (induction deltas arbitrary: hist)
  case Nil
  then show ?case by simp
next
  case (Cons d ds)
  from update_delta_on_memory_total [OF Cons.prems]
  obtain h1 where step: "update_delta_on_memory hist d = Inr (h1, d)" and "h1 \<noteq> []"
    by blast
  from Cons.IH [OF \<open>h1 \<noteq> []\<close>] obtain h2 where "update_deltas_on_memory h1 ds = Inr (h2, ds)" and "h2 \<noteq> []"
    by blast
  with step show ?case by simp
qed

text \<open>
  C2. A delta whose role is set and differs from the role of the last message of a
  non-empty history appends exactly one message, made of the delta's role, content and
  name: the history grows by one and the messages already there stay as they were.
\<close>

theorem role_change_appends_one_message:
  assumes "hist \<noteq> []" and "delta_role delta = Some r" and "msg_role (last hist) \<noteq> r"
  shows "\<exists>hist'. update_delta_on_memory hist delta = Inr (hist', delta) \<and>
           hist' = hist @ [\<lparr>msg_role = r, msg_content = delta_content delta, msg_name = delta_name delta\<rparr>] \<and>
           length hist' = length hist + 1 \<and>
           take (length hist) hist' = hist"
  using assms by (simp add: update_delta_on_memory_append)

theorem role_change_appends_one_message_witness:
  "[\<lparr>msg_role = ''user'', msg_content = ''hi there'', msg_name = None\<rparr>] \<noteq> [] \<and>
   delta_role \<lparr>delta_role = Some ''assistant'', delta_content = ''Hello!'', delta_name = None\<rparr> =
     Some ''assistant'' \<and>
   msg_role (last [\<lparr>msg_role = ''user'', msg_content = ''hi there'', msg_name = None\<rparr>]) \<noteq> ''assistant'' \<and>
   (\<exists>hist'.
      update_delta_on_memory [\<lparr>msg_role = ''user'', msg_content = ''hi there'', msg_name = None\<rparr>]
        \<lparr>delta_role = Some ''assistant'', delta_content = ''Hello!'', delta_name = None\<rparr> =
        Inr (hist', \<lparr>delta_role = Some ''assistant'', delta_content = ''Hello!'', delta_name = None\<rparr>) \<and>
      hist' = [\<lparr>msg_role = ''user'', msg_content = ''hi there'', msg_name = None\<rparr>,
               \<lparr>msg_role = ''assistant'', msg_content = ''Hello!'', msg_name = None\<rparr>])"
  using role_change_appends_one_message
    [of "[\<lparr>msg_role = ''user'', msg_content = ''hi there'', msg_name = None\<rparr>]"
        "\<lparr>delta_role = Some ''assistant'', delta_content = ''Hello!'', delta_name = None\<rparr>"
        "''assistant''"]
  by simp

text \<open>
  C3, as the code has it. Take a non-empty sequence of deltas, folded in arrival order into
  a history whose last message has another role than \<open>r\<close>, where the first delta carries
  the role \<open>r\<close> and each of the others carries \<open>r\<close> or no role (all the same role \<open>r\<close>, or
  the shape a model's stream has: the role on the first chunk only). The fold gives
  exactly one new message, of role \<open>r\<close> and with the first delta's name: the history grows
  by one over the whole sequence, and the content of the new message is the
  concatenation of the deltas' contents in arrival order. A sequence of deltas that all
  carry no role gives no new message: their contents are appended, in order, to the last
  message.
\<close>

theorem same_role_concatenation:
  assumes "hist \<noteq> []" and "delta_role d = Some r"
    and "\<forall>x\<in>set ds. delta_role x = None \<or> delta_role x = Some r"
    and "msg_role (last hist) \<noteq> r"
    and "\<forall>x\<in>set nulls. delta_role x = None"
  shows "(\<exists>hist'. update_deltas_on_memory hist (d # ds) = Inr (hist', d # ds) \<and>
            hist' = hist @ [\<lparr>msg_role = r, msg_content = concat (map delta_content (d # ds)),
                             msg_name = delta_name d\<rparr>] \<and>
            length hist' = length hist + 1) \<and>
         update_deltas_on_memory hist nulls =
           Inr (butlast hist @
                  [(last hist)\<lparr>msg_content := msg_content (last hist) @
                                  concat (map delta_content nulls)\<rparr>],
                nulls)"
proof -
  let ?m = "\<lparr>msg_role = r, msg_content = delta_content d, msg_name = delta_name d\<rparr>"
  from assms(1,2,4) have first: "update_delta_on_memory hist d = Inr (hist @ [?m], d)"
    by (simp add: update_delta_on_memory_append)
  from assms(3)
  have "\<forall>x\<in>set ds. delta_role x = None \<or> delta_role x = Some (msg_role (last (hist @ [?m])))"
    by simp
  then have "update_deltas_on_memory (hist @ [?m]) ds =
      Inr (butlast (hist @ [?m]) @
             [(last (hist @ [?m]))\<lparr>msg_content := msg_content (last (hist @ [?m])) @
                concat (map delta_content ds)\<rparr>], ds)"
    by (intro update_deltas_extend) simp_all
  with first have "\<exists>hist'. update_deltas_on_memory hist (d # ds) = Inr (hist', d # ds) \<and>
            hist' = hist @ [\<lparr>msg_role = r, msg_content = concat (map delta_content (d # ds)),
                             msg_name = delta_name d\<rparr>] \<and>
            length hist' = length hist + 1"
    by simp
  moreover from assms(5)
  have "\<forall>x\<in>set nulls. delta_role x = None \<or> delta_role x = Some (msg_role (last hist))"
    by simp
  with assms(1) have "update_deltas_on_memory hist nulls =
           Inr (butlast hist @
                  [(last hist)\<lparr>msg_content := msg_content (last hist) @
                                  concat (map delta_content nulls)\<rparr>],
                nulls)"
    by (rule update_deltas_extend)
  ultimately show ?thesis
    by (intro conjI)
qed

theorem same_role_concatenation_witness:
  "[\<lparr>msg_role = ''user'', msg_content = ''hi there'', msg_name = None\<rparr>] \<noteq> [] \<and>
   delta_role \<lparr>delta_role = Some ''assistant'', delta_content = ''Hel'', delta_name = None\<rparr> =
     Some ''assistant'' \<and>
   list_all (\<lambda>x. delta_role x = None \<or> delta_role x = Some ''assistant'')
     [\<lparr>delta_role = None, delta_content = ''lo'', delta_name = None\<rparr>,
      \<lparr>delta_role = Some ''assistant'', delta_content = ''!'', delta_name = None\<rparr>] \<and>
   msg_role (last [\<lparr>msg_role = ''user'', msg_content = ''hi there'', msg_name = None\<rparr>]) \<noteq> ''assistant'' \<and>
   list_all (\<lambda>x. delta_role x = None)
     [\<lparr>delta_role = None, delta_content = ''a'', delta_name = None\<rparr>] \<and>
   update_deltas_on_memory [\<lparr>msg_role = ''user'', msg_content = ''hi there'', msg_name = None\<rparr>]
     [\<lparr>delta_role = Some ''assistant'', delta_content = ''Hel'', delta_name = None\<rparr>,
      \<lparr>delta_role = None, delta_content = ''lo'', delta_name = None\<rparr>,
      \<lparr>delta_role = Some ''assistant'', delta_content = ''!'', delta_name = None\<rparr>] =
     Inr ([\<lparr>msg_role = ''user'', msg_content = ''hi there'', msg_name = None\<rparr>,
           \<lparr>msg_role = ''assistant'', msg_content = ''Hello!'', msg_name = None\<rparr>],
          [\<lparr>delta_role = Some ''assistant'', delta_content = ''Hel'', delta_name = None\<rparr>,
           \<lparr>delta_role = None, delta_content = ''lo'', delta_name = None\<rparr>,
           \<lparr>delta_role = Some ''assistant'', delta_content = ''!'', delta_name = None\<rparr>])"
  using same_role_concatenation
    [of "[\<lparr>msg_role = ''user'', msg_content = ''hi there'', msg_name = None\<rparr>]"
        "\<lparr>delta_role = Some ''assistant'', delta_content = ''Hel'', delta_name = None\<rparr>"
        "''assistant''"
        "[\<lparr>delta_role = None, delta_content = ''lo'', delta_name = None\<rparr>,
          \<lparr>delta_role = Some ''assistant'', delta_content = ''!'', delta_name = None\<rparr>]"
        "[\<lparr>delta_role = None, delta_content = ''a'', delta_name = None\<rparr>]"]
  by simp

text \<open>
  The specification's wording takes any sequence of deltas of one role. Two deltas that
  both carry no role, folded after the user's message, give no new message: the history
  still holds one message, now with their contents appended. Nor does the empty
  sequence give one.
\<close>

theorem same_role_concatenation_counterexample:
  "delta_role \<lparr>delta_role = None, delta_content = ''a'', delta_name = None\<rparr> =
     delta_role \<lparr>delta_role = None, delta_content = ''b'', delta_name = None\<rparr> \<and>
   Some (msg_role \<lparr>msg_role = ''user'', msg_content = ''hi'', msg_name = None\<rparr>) \<noteq>
     delta_role \<lparr>delta_role = None, delta_content = ''a'', delta_name = None\<rparr> \<and>
   update_deltas_on_memory [\<lparr>msg_role = ''user'', msg_content = ''hi'', msg_name = None\<rparr>]
     [\<lparr>delta_role = None, delta_content = ''a'', delta_name = None\<rparr>,
      \<lparr>delta_role = None, delta_content = ''b'', delta_name = None\<rparr>] =
     Inr ([\<lparr>msg_role = ''user'', msg_content = ''hiab'', msg_name = None\<rparr>],
          [\<lparr>delta_role = None, delta_content = ''a'', delta_name = None\<rparr>,
           \<lparr>delta_role = None, delta_content = ''b'', delta_name = None\<rparr>]) \<and>
   update_deltas_on_memory [\<lparr>msg_role = ''user'', msg_content = ''hi'', msg_name = None\<rparr>] [] =
     Inr ([\<lparr>msg_role = ''user'', msg_content = ''hi'', msg_name = None\<rparr>], [])"
  by (simp add: update_delta_on_memory_def)

text \<open>
  C8. Folding a delta into a non-empty history either appends one message at the end or
  extends the content of the last message by the delta's content. Either way every
  message but the last is unchanged, none is removed and their order is kept.
\<close>

theorem append_or_extend:
  assumes "hist \<noteq> []"
  shows "\<exists>hist'. update_delta_on_memory hist delta = Inr (hist', delta) \<and>
           ((\<exists>r. delta_role delta = Some r \<and> msg_role (last hist) \<noteq> r \<and>
                 hist' = hist @ [\<lparr>msg_role = r, msg_content = delta_content delta,
                                  msg_name = delta_name delta\<rparr>]) \<or>
            ((delta_role delta = None \<or> delta_role delta = Some (msg_role (last hist))) \<and>
             hist' = butlast hist @
                       [(last hist)\<lparr>msg_content := msg_content (last hist) @ delta_content delta\<rparr>])) \<and>
           take (length hist - 1) hist' = butlast hist \<and>
           length hist \<le> length hist'"
proof (rule update_delta_on_memory_cases [OF assms, of delta])
  fix r
  assume "delta_role delta = Some r" and "msg_role (last hist) \<noteq> r"
  with assms show ?thesis
    by (simp add: update_delta_on_memory_append butlast_conv_take)
next
  assume "delta_role delta = None \<or> delta_role delta = Some (msg_role (last hist))"
  with assms show ?thesis
    by (simp add: update_delta_on_memory_extend butlast_conv_take)
qed

theorem append_or_extend_witness:
  "[\<lparr>msg_role = ''user'', msg_content = ''hi there'', msg_name = None\<rparr>,
    \<lparr>msg_role = ''assistant'', msg_content = ''Hel'', msg_name = None\<rparr>] \<noteq> [] \<and>
   (\<exists>hist'.
      update_delta_on_memory
        [\<lparr>msg_role = ''user'', msg_content = ''hi there'', msg_name = None\<rparr>,
         \<lparr>msg_role = ''assistant'', msg_content = ''Hel'', msg_name = None\<rparr>]
        \<lparr>delta_role = None, delta_content = ''lo!'', delta_name = None\<rparr> =
        Inr (hist', \<lparr>delta_role = None, delta_content = ''lo!'', delta_name = None\<rparr>) \<and>
      hist' = [\<lparr>msg_role = ''user'', msg_content = ''hi there'', msg_name = None\<rparr>,
               \<lparr>msg_role = ''assistant'', msg_content = ''Hello!'', msg_name = None\<rparr>])"
  using append_or_extend
    [of "[\<lparr>msg_role = ''user'', msg_content = ''hi there'', msg_name = None\<rparr>,
          \<lparr>msg_role = ''assistant'', msg_content = ''Hel'', msg_name = None\<rparr>]"
        "\<lparr>delta_role = None, delta_content = ''lo!'', delta_name = None\<rparr>"]
  by auto

text \<open>
  C10. Folding any delta into an empty history fails with \<^verbatim>\<open>IndexError\<close>, whatever the
  delta's role, and appends nothing. Once a message has been saved the history is not
  empty and stays so: every stream of deltas folded after \<open>save_message_to_memory\<close> is
  folded to its end, without that error.
\<close>

theorem empty_store_reduction_fails:
  "update_delta_on_memory [] delta = Inl (IndexError ''list index out of range'') \<and>
   (\<exists>hist'. update_deltas_on_memory (fst (save_message_to_memory hist message)) deltas =
               Inr (hist', deltas) \<and> hist' \<noteq> [])"
proof -
  have "fst (save_message_to_memory hist message) \<noteq> []"
    by (simp add: save_message_to_memory_def)
  then show ?thesis
    by (simp add: update_delta_on_memory_def update_deltas_total)
qed

section \<open>Properties of the chains\<close>

lemma history_update_trace_update [simp]:
  "history_update f (trace_update g s) = trace_update g (history_update f s)"
  by simp

lemma async_for_update:
  assumes "update_deltas_on_memory (history s) deltas = Inr (hist', deltas')"
  shows "async_for (\<lambda>s delta. map_update_delta_on_memory (receive chain delta s) delta) s deltas =
           (s\<lparr>history := hist', trace := trace s @ map (Chunk chain) deltas\<rparr>, deltas', None)"
  using assms
proof (induction deltas arbitrary: s deltas')
  case Nil
  then show ?case by simp
next
  case (Cons d ds)
  from Cons.prems obtain h1 d1 ds2
    where step: "update_delta_on_memory (history s) d = Inr (h1, d1)"
      and rest: "update_deltas_on_memory h1 ds = Inr (hist', ds2)"
      and res: "deltas' = d1 # ds2"
    by (auto split: sum.splits)
  let ?s1 = "s\<lparr>history := h1, trace := trace s @ [Chunk chain d]\<rparr>"
  from rest have "update_deltas_on_memory (history ?s1) ds = Inr (hist', ds2)"
    by simp
  from Cons.IH [OF this] step res show ?case
    by (simp add: map_update_delta_on_memory_def receive_def)
qed

lemma function_reply_chain_replies:
  assumes "history s \<noteq> []"
  shows "\<exists>hist'.
           update_deltas_on_memory (history s) (completion c ''FunctionReplyChain'' (history s)) =
             Inr (hist', completion c ''FunctionReplyChain'' (history s)) \<and>
           function_reply_chain c s =
             (s\<lparr>history := hist',
                trace := trace s @ Call ''FunctionReplyChain'' (history s) #
                           map (Chunk ''FunctionReplyChain'')
                             (completion c ''FunctionReplyChain'' (history s))\<rparr>,
              completion c ''FunctionReplyChain'' (history s), None)"
proof -
  let ?reply = "completion c ''FunctionReplyChain'' (history s)"
  from update_deltas_total [OF assms, of ?reply]
  obtain hist' where fold: "update_deltas_on_memory (history s) ?reply = Inr (hist', ?reply)"
    by blast
  let ?s1 = "s\<lparr>trace := trace s @ [Call ''FunctionReplyChain'' (history s)]\<rparr>"
  from fold have "update_deltas_on_memory (history ?s1) ?reply = Inr (hist', ?reply)"
    by simp
  from async_for_update [OF this, of "''FunctionReplyChain''"] fold show ?thesis
    by (simp add: function_reply_chain_def call_def)
qed

lemma calls_of_append: "calls_of (es @ es') = calls_of es @ calls_of es'"
  by (induction es rule: calls_of.induct) simp_all

lemma calls_of_chunks: "calls_of (map (Chunk chain) deltas) = []"
  by (induction deltas) simp_all

lemma maybe_dispatch_role:
  assumes "maybe_dispatch c s delta = (s', Inr delta')"
  shows "s' = s \<and> delta_role delta' = delta_role delta"
  using assms
  by (auto simp add: maybe_dispatch_def call_get_current_weather_def get_current_weather_def Let_def
      split: if_splits sum.splits json.splits list.splits option.splits)

text \<open>
  What the two maps of \<^verbatim>\<open>weather_chain\<close> leave behind, whether the stream ends or an
  exception cuts it short: the chunks consumed are a prefix of the stream, the outputs
  are the deltas folded, in order, and they carry the roles the model sent.
\<close>

lemma weather_chain_chunks:
  assumes "async_for (weather_chain_chunk c) s deltas = (s', outputs, r)"
  shows "update_deltas_on_memory (history s) outputs = Inr (history s', outputs) \<and>
         map delta_role outputs = take (length outputs) (map delta_role deltas) \<and>
         (\<exists>k. trace s' = trace s @ map (Chunk ''WeatherChain'') (take k deltas)) \<and>
         (r = None \<longrightarrow> length outputs = length deltas \<and>
                     trace s' = trace s @ map (Chunk ''WeatherChain'') deltas)"
  using assms
proof (induction deltas arbitrary: s s' outputs r)
  case Nil
  then show ?case by simp
next
  case (Cons d ds)
  let ?s0 = "receive ''WeatherChain'' d s"
  have stopped: ?case if chunk: "weather_chain_chunk c s d = (?s0, [], Some e)" for e
  proof -
    from chunk Cons.prems have res: "s' = ?s0" "outputs = []" "r = Some e"
      by simp_all
    then have "trace s' = trace s @ map (Chunk ''WeatherChain'') (take 1 (d # ds))"
      by (simp add: receive_def)
    then have "\<exists>k. trace s' = trace s @ map (Chunk ''WeatherChain'') (take k (d # ds))"
      by (rule exI)
    with res show ?thesis
      by (simp add: receive_def)
  qed
  show ?case
  proof (cases "maybe_dispatch c ?s0 d")
    case (Pair sa res)
    show ?thesis
    proof (cases res)
      case (Inl e)
      with Pair have "sa = ?s0"
        by (auto simp add: maybe_dispatch_def split: if_splits)
      with Pair Inl have "weather_chain_chunk c s d = (?s0, [], Some e)"
        by (simp add: weather_chain_chunk_def)
      then show ?thesis by (rule stopped)
    next
      case (Inr d')
      with Pair maybe_dispatch_role [of c ?s0 d sa d']
      have sa: "sa = ?s0" and role: "delta_role d' = delta_role d"
        by simp_all
      show ?thesis
      proof (cases "update_delta_on_memory (history s) d'")
        case (Inl e)
        with Pair Inr sa have "weather_chain_chunk c s d = (?s0, [], Some e)"
          by (simp add: weather_chain_chunk_def map_update_delta_on_memory_def receive_def)
        then show ?thesis by (rule stopped)
      next
        case upd: (Inr p)
        obtain h1 d1 where p: "p = (h1, d1)" by (cases p)
        from upd p have d1: "d1 = d'"
          by (auto simp add: update_delta_on_memory_def split: if_splits)
        let ?s1 = "?s0\<lparr>history := h1\<rparr>"
        from Pair Inr sa upd p d1 have chunk: "weather_chain_chunk c s d = (?s1, [d'], None)"
          by (simp add: weather_chain_chunk_def map_update_delta_on_memory_def receive_def)
        obtain s2 zs r2 where rec: "async_for (weather_chain_chunk c) ?s1 ds = (s2, zs, r2)"
          by (cases "async_for (weather_chain_chunk c) ?s1 ds") auto
        from chunk rec Cons.prems
        have res: "s' = s2" "outputs = d' # zs" "r = r2"
          by simp_all
        from Cons.IH [OF rec]
        have ih: "update_deltas_on_memory h1 zs = Inr (history s2, zs)"
          "map delta_role zs = take (length zs) (map delta_role ds)"
          "\<exists>k. trace s2 = trace ?s1 @ map (Chunk ''WeatherChain'') (take k ds)"
          "r2 = None \<longrightarrow> length zs = length ds \<and> trace s2 = trace ?s1 @ map (Chunk ''WeatherChain'') ds"
          by (simp_all add: receive_def)
        from ih(3) obtain k where "trace s2 = trace ?s1 @ map (Chunk ''WeatherChain'') (take k ds)"
          by blast
        then have "trace s2 = trace s @ map (Chunk ''WeatherChain'') (take (Suc k) (d # ds))"
          by (simp add: receive_def)
        then have tr: "\<exists>k. trace s2 = trace s @ map (Chunk ''WeatherChain'') (take k (d # ds))"
          by (rule exI)
        from ih(1) upd p d1 res have "update_deltas_on_memory (history s) outputs = Inr (history s', outputs)"
          by simp
        moreover from ih(2) role res
        have "map delta_role outputs = take (length outputs) (map delta_role (d # ds))"
          by simp
        moreover from ih(4) res
        have "r = None \<longrightarrow> length outputs = length (d # ds) \<and>
                trace s' = trace s @ map (Chunk ''WeatherChain'') (d # ds)"
          by (simp add: receive_def)
        ultimately show ?thesis using tr res by blast
      qed
    qed
  qed
qed

lemma update_deltas_nonempty:
  assumes "update_deltas_on_memory hist deltas = Inr (hist', deltas')" and "hist \<noteq> []"
  shows "hist' \<noteq> []"
  using update_deltas_total [OF assms(2), of deltas] assms(1) by auto

lemma weather_chain_result:
  assumes "weather_chain c s user_input = (s1, outputs, r)"
  shows "update_deltas_on_memory
           (history s @ [\<lparr>msg_role = ''user'', msg_content = user_input, msg_name = None\<rparr>]) outputs =
           Inr (history s1, outputs)"
    and "map delta_role outputs =
           take (length outputs)
             (map delta_role
                (completion c ''WeatherChain''
                   (history s @ [\<lparr>msg_role = ''user'', msg_content = user_input, msg_name = None\<rparr>])))"
    and "\<exists>k. trace s1 =
           trace s @
           Call ''WeatherChain''
             (history s @ [\<lparr>msg_role = ''user'', msg_content = user_input, msg_name = None\<rparr>]) #
           map (Chunk ''WeatherChain'')
             (take k (completion c ''WeatherChain''
                (history s @ [\<lparr>msg_role = ''user'', msg_content = user_input, msg_name = None\<rparr>])))"
    and "r = None \<Longrightarrow>
           length outputs =
             length (completion c ''WeatherChain''
               (history s @ [\<lparr>msg_role = ''user'', msg_content = user_input, msg_name = None\<rparr>])) \<and>
           trace s1 =
             trace s @
             Call ''WeatherChain''
               (history s @ [\<lparr>msg_role = ''user'', msg_content = user_input, msg_name = None\<rparr>]) #
             map (Chunk ''WeatherChain'')
               (completion c ''WeatherChain''
                  (history s @ [\<lparr>msg_role = ''user'', msg_content = user_input, msg_name = None\<rparr>]))"
    and "history s1 \<noteq> []"
proof -
  let ?u = "\<lparr>msg_role = ''user'', msg_content = user_input, msg_name = None\<rparr>"
  let ?ctx = "history s @ [?u]"
  let ?s0 = "s\<lparr>history := ?ctx, trace := trace s @ [Call ''WeatherChain'' ?ctx]\<rparr>"
  from assms have run: "async_for (weather_chain_chunk c) ?s0 (completion c ''WeatherChain'' ?ctx) =
      (s1, outputs, r)"
    by (simp add: weather_chain_def save_message_to_memory_def call_def)
  note facts = weather_chain_chunks [OF run]
  from facts show fold: "update_deltas_on_memory ?ctx outputs = Inr (history s1, outputs)"
    by simp
  from facts show "map delta_role outputs =
      take (length outputs) (map delta_role (completion c ''WeatherChain'' ?ctx))"
    by simp
  from facts obtain k where "trace s1 = trace ?s0 @
      map (Chunk ''WeatherChain'') (take k (completion c ''WeatherChain'' ?ctx))"
    by blast
  then have "trace s1 = trace s @ Call ''WeatherChain'' ?ctx #
      map (Chunk ''WeatherChain'') (take k (completion c ''WeatherChain'' ?ctx))"
    by simp
  then show "\<exists>k. trace s1 = trace s @ Call ''WeatherChain'' ?ctx #
      map (Chunk ''WeatherChain'') (take k (completion c ''WeatherChain'' ?ctx))"
    by (rule exI [of _ k])
  from facts show "length outputs = length (completion c ''WeatherChain'' ?ctx) \<and>
      trace s1 = trace s @ Call ''WeatherChain'' ?ctx #
        map (Chunk ''WeatherChain'') (completion c ''WeatherChain'' ?ctx)" if "r = None"
    using that by simp
  from fold show "history s1 \<noteq> []"
    by (rule update_deltas_nonempty) simp
qed

lemma last_map_role:
  assumes "outputs \<noteq> []" and "map delta_role outputs = map delta_role deltas"
  shows "delta_role (last outputs) = delta_role (last deltas)"
proof -
  from assms have "deltas \<noteq> []" by auto
  with assms(1) have "delta_role (last outputs) = last (map delta_role outputs)"
    and "delta_role (last deltas) = last (map delta_role deltas)"
    by (simp_all add: last_map)
  with assms(2) show ?thesis by simp
qed

lemma map_update_total:
  assumes "history s \<noteq> []"
  shows "\<exists>hist'. hist' \<noteq> [] \<and>
           map_update_delta_on_memory s delta = (s\<lparr>history := hist'\<rparr>, [delta], None)"
proof -
  from update_delta_on_memory_total [OF assms, of delta]
  obtain hist' where "update_delta_on_memory (history s) delta = Inr (hist', delta)" and "hist' \<noteq> []"
    by blast
  then have "hist' \<noteq> [] \<and> map_update_delta_on_memory s delta = (s\<lparr>history := hist'\<rparr>, [delta], None)"
    by (simp add: map_update_delta_on_memory_def)
  then show ?thesis
    by (rule exI [of _ hist'])
qed

lemma async_for_update_total:
  assumes "history s \<noteq> []"
  shows "\<exists>hist'. hist' \<noteq> [] \<and>
           update_deltas_on_memory (history s) deltas = Inr (hist', deltas) \<and>
           async_for (\<lambda>s delta. map_update_delta_on_memory (receive chain delta s) delta) s deltas =
             (s\<lparr>history := hist', trace := trace s @ map (Chunk chain) deltas\<rparr>, deltas, None)"
proof -
  from update_deltas_total [OF assms, of deltas]
  obtain hist' where fold: "update_deltas_on_memory (history s) deltas = Inr (hist', deltas)"
    and "hist' \<noteq> []"
    by blast
  with async_for_update [OF fold, of chain]
  have "hist' \<noteq> [] \<and>
        update_deltas_on_memory (history s) deltas = Inr (hist', deltas) \<and>
        async_for (\<lambda>s delta. map_update_delta_on_memory (receive chain delta s) delta) s deltas =
          (s\<lparr>history := hist', trace := trace s @ map (Chunk chain) deltas\<rparr>, deltas, None)"
    by simp
  then show ?thesis
    by (rule exI [of _ hist'])
qed

lemma maybe_dispatch_saving_history:
  assumes "history s \<noteq> []"
  shows "history (fst (maybe_dispatch_saving c s delta)) \<noteq> []"
  using assms by (simp add: maybe_dispatch_saving_def save_message_to_memory_def)

lemma error_handler_history:
  assumes "history s \<noteq> []"
  shows "history (fst (error_handler c s err)) \<noteq> []"
  using assms
  by (simp add: error_handler_def function_error_chain_def save_message_to_memory_def call_def)

text \<open>
  Once the user's message is saved, the history of the bot with error handling is never
  empty again, whatever the model streams and whether or not the chain recovers.
\<close>

lemma weather_chain_err_stream_history:
  assumes "weather_chain_err_stream c s deltas = (s', outputs, r)" and "history s \<noteq> []"
  shows "history s' \<noteq> []"
  using assms
proof (induction deltas arbitrary: s s' outputs r)
  case Nil
  then show ?case by simp
next
  case (Cons d ds)
  obtain s1 res where dispatch: "maybe_dispatch_saving c (receive ''WeatherChain'' d s) d = (s1, res)"
    by (cases "maybe_dispatch_saving c (receive ''WeatherChain'' d s) d") auto
  from Cons.prems(2) have "history (receive ''WeatherChain'' d s) \<noteq> []"
    by (simp add: receive_def)
  from maybe_dispatch_saving_history [OF this, of c d] dispatch have s1: "history s1 \<noteq> []"
    by simp
  show ?case
  proof (cases res)
    case (Inl e)
    obtain s2 x where handler: "error_handler c s1 e = (s2, x)"
      by (cases "error_handler c s1 e") auto
    from error_handler_history [OF s1, of c e] handler have s2: "history s2 \<noteq> []"
      by simp
    show ?thesis
    proof (cases x)
      case raised: (Inl e')
      with dispatch Inl handler Cons.prems(1) have "s' = s2"
        by simp
      with s2 show ?thesis by simp
    next
      case (Inr recovery)
      from async_for_update_total [OF s2, of recovery "''FunctionErrorChain''"]
      obtain hist' where "hist' \<noteq> []"
        and "async_for (\<lambda>s d. map_update_delta_on_memory (receive ''FunctionErrorChain'' d s) d)
               s2 recovery =
             (s2\<lparr>history := hist',
                 trace := trace s2 @ map (Chunk ''FunctionErrorChain'') recovery\<rparr>,
              recovery, None)"
        by blast
      with dispatch Inl handler Inr Cons.prems(1)
      have "s' = s2\<lparr>history := hist',
                     trace := trace s2 @ map (Chunk ''FunctionErrorChain'') recovery\<rparr>"
        by auto
      with \<open>hist' \<noteq> []\<close> show ?thesis by simp
    qed
  next
    case (Inr d')
    from map_update_total [OF s1, of d']
    obtain hist' where "hist' \<noteq> []"
      and upd: "map_update_delta_on_memory s1 d' = (s1\<lparr>history := hist'\<rparr>, [d'], None)"
      by blast
    obtain s3 zs r3 where rec: "weather_chain_err_stream c (s1\<lparr>history := hist'\<rparr>) ds = (s3, zs, r3)"
      by (cases "weather_chain_err_stream c (s1\<lparr>history := hist'\<rparr>) ds") auto
    from dispatch Inr upd rec Cons.prems(1) have "s' = s3"
      by simp
    moreover from \<open>hist' \<noteq> []\<close> have "history (s1\<lparr>history := hist'\<rparr>) \<noteq> []"
      by simp
    from Cons.IH [OF rec this] have "history s3 \<noteq> []" .
    ultimately show ?thesis by simp
  qed
qed

lemma weather_chain_err_history:
  assumes "weather_chain_err c s user_input = (s1, outputs, r)"
  shows "history s1 \<noteq> []"
proof -
  let ?u = "\<lparr>msg_role = ''user'', msg_content = user_input, msg_name = None\<rparr>"
  let ?s0 = "s\<lparr>history := history s @ [?u],
               trace := trace s @ [Call ''WeatherChain'' (system_message # history s @ [?u])]\<rparr>"
  from assms
  have "weather_chain_err_stream c ?s0
          (completion c ''WeatherChain'' (system_message # history s @ [?u])) = (s1, outputs, r)"
    by (simp add: weather_chain_err_def save_message_to_memory_def call_def)
  then show ?thesis
    by (rule weather_chain_err_stream_history) simp
qed

text \<open>The lambda given to \<^verbatim>\<open>and_then\<close>, on a history that is not empty.\<close>

lemma reply_if_function_result:
  assumes "history s1 \<noteq> []" and "outputs \<noteq> []"
  shows "if delta_role (last outputs) = Some ''function''
         then \<exists>s2. reply_if_function c s1 outputs =
                      (s2, completion c ''FunctionReplyChain'' (history s1), None) \<and>
                    update_deltas_on_memory (history s1)
                      (completion c ''FunctionReplyChain'' (history s1)) =
                      Inr (history s2, completion c ''FunctionReplyChain'' (history s1)) \<and>
                    calls_of (trace s2) =
                      calls_of (trace s1) @ [(''FunctionReplyChain'', history s1)]
         else reply_if_function c s1 outputs = (s1, outputs, None)"
proof (cases "delta_role (last outputs) = Some ''function''")
  case True
  from function_reply_chain_replies [OF assms(1), of c]
  obtain hist' where fold: "update_deltas_on_memory (history s1)
        (completion c ''FunctionReplyChain'' (history s1)) =
        Inr (hist', completion c ''FunctionReplyChain'' (history s1))"
    and reply: "function_reply_chain c s1 =
        (s1\<lparr>history := hist',
            trace := trace s1 @ Call ''FunctionReplyChain'' (history s1) #
              map (Chunk ''FunctionReplyChain'') (completion c ''FunctionReplyChain'' (history s1))\<rparr>,
         completion c ''FunctionReplyChain'' (history s1), None)"
    by blast
  let ?s2 = "s1\<lparr>history := hist',
            trace := trace s1 @ Call ''FunctionReplyChain'' (history s1) #
              map (Chunk ''FunctionReplyChain'') (completion c ''FunctionReplyChain'' (history s1))\<rparr>"
  from assms(2) True reply
  have "reply_if_function c s1 outputs =
      (?s2, completion c ''FunctionReplyChain'' (history s1), None)"
    by (simp add: reply_if_function_def)
  moreover from fold have "update_deltas_on_memory (history s1)
        (completion c ''FunctionReplyChain'' (history s1)) =
        Inr (history ?s2, completion c ''FunctionReplyChain'' (history s1))"
    by simp
  moreover have "calls_of (trace ?s2) =
      calls_of (trace s1) @ [(''FunctionReplyChain'', history s1)]"
    by (simp add: calls_of_append calls_of_chunks)
  ultimately have "reply_if_function c s1 outputs =
                      (?s2, completion c ''FunctionReplyChain'' (history s1), None) \<and>
                    update_deltas_on_memory (history s1)
                      (completion c ''FunctionReplyChain'' (history s1)) =
                      Inr (history ?s2, completion c ''FunctionReplyChain'' (history s1)) \<and>
                    calls_of (trace ?s2) =
                      calls_of (trace s1) @ [(''FunctionReplyChain'', history s1)]"
    by (intro conjI)
  then have "\<exists>s2. reply_if_function c s1 outputs =
                      (s2, completion c ''FunctionReplyChain'' (history s1), None) \<and>
                    update_deltas_on_memory (history s1)
                      (completion c ''FunctionReplyChain'' (history s1)) =
                      Inr (history s2, completion c ''FunctionReplyChain'' (history s1)) \<and>
                    calls_of (trace s2) =
                      calls_of (trace s1) @ [(''FunctionReplyChain'', history s1)]"
    by (rule exI [of _ ?s2])
  with True show ?thesis by simp
next
  case False
  with assms(2) show ?thesis
    by (simp add: reply_if_function_def)
qed

text \<open>
  C1, as the code has it, for the two bots composed with \<^verbatim>\<open>and_then\<close>: the weather bot and
  the weather bot with error handling. Take a turn whose first chain ends without an
  exception and has yielded at least one unit. The role the bot inspects is that of the
  last unit the first chain yielded. If it is \<^verbatim>\<open>function\<close>, the bot makes exactly one
  further request, \<^verbatim>\<open>FunctionReplyChain\<close> on the history as it then stands, and the turn's
  outputs are the deltas of that reply, which are folded into the history. For any other
  role the bot makes no further request and passes on the outputs of the first chain
  unchanged. In the weather bot the first chain makes the one request of
  \<^verbatim>\<open>WeatherChain\<close> and the role inspected is the role of the last delta the model sent;
  in the bot with error handling the last unit may be one of the recovery's reply.
\<close>

theorem follow_up_trigger:
  "(weather_chain c s user_input = (s1, outputs, None) \<longrightarrow> outputs \<noteq> [] \<longrightarrow>
      delta_role (last outputs) =
        delta_role (last (completion c ''WeatherChain''
          (history s @ [\<lparr>msg_role = ''user'', msg_content = user_input, msg_name = None\<rparr>]))) \<and>
      calls_of (trace s1) =
        calls_of (trace s) @
        [(''WeatherChain'',
          history s @ [\<lparr>msg_role = ''user'', msg_content = user_input, msg_name = None\<rparr>])] \<and>
      (if delta_role (last outputs) = Some ''function''
       then \<exists>s2. weather_bot c s user_input =
                    (s2, completion c ''FunctionReplyChain'' (history s1), None) \<and>
                  update_deltas_on_memory (history s1)
                    (completion c ''FunctionReplyChain'' (history s1)) =
                    Inr (history s2, completion c ''FunctionReplyChain'' (history s1)) \<and>
                  calls_of (trace s2) =
                    calls_of (trace s1) @ [(''FunctionReplyChain'', history s1)]
       else weather_bot c s user_input = (s1, outputs, None))) \<and>
   (weather_chain_err c s user_input = (s1', outputs', None) \<longrightarrow> outputs' \<noteq> [] \<longrightarrow>
      (if delta_role (last outputs') = Some ''function''
       then \<exists>s2. weather_bot_err c s user_input =
                    (s2, completion c ''FunctionReplyChain'' (history s1'), None) \<and>
                  update_deltas_on_memory (history s1')
                    (completion c ''FunctionReplyChain'' (history s1')) =
                    Inr (history s2, completion c ''FunctionReplyChain'' (history s1')) \<and>
                  calls_of (trace s2) =
                    calls_of (trace s1') @ [(''FunctionReplyChain'', history s1')]
       else weather_bot_err c s user_input = (s1', outputs', None)))"
proof (intro conjI impI)
  let ?ctx = "history s @ [\<lparr>msg_role = ''user'', msg_content = user_input, msg_name = None\<rparr>]"
  assume chain: "weather_chain c s user_input = (s1, outputs, None)" and nonempty: "outputs \<noteq> []"
  note facts = weather_chain_result [OF chain]
  from facts(4) have len: "length outputs = length (completion c ''WeatherChain'' ?ctx)"
    and tr: "trace s1 = trace s @ Call ''WeatherChain'' ?ctx #
               map (Chunk ''WeatherChain'') (completion c ''WeatherChain'' ?ctx)"
    by simp_all
  from facts(2) len have "map delta_role outputs = map delta_role (completion c ''WeatherChain'' ?ctx)"
    by simp
  with nonempty show "delta_role (last outputs) = delta_role (last (completion c ''WeatherChain'' ?ctx))"
    by (rule last_map_role)
  from tr show "calls_of (trace s1) = calls_of (trace s) @ [(''WeatherChain'', ?ctx)]"
    by (simp add: calls_of_append calls_of_chunks)
  from chain have "weather_bot c s user_input = reply_if_function c s1 outputs"
    by (simp add: weather_bot_def and_then_def)
  with reply_if_function_result [OF facts(5) nonempty, of c]
  show "if delta_role (last outputs) = Some ''function''
       then \<exists>s2. weather_bot c s user_input =
                    (s2, completion c ''FunctionReplyChain'' (history s1), None) \<and>
                  update_deltas_on_memory (history s1)
                    (completion c ''FunctionReplyChain'' (history s1)) =
                    Inr (history s2, completion c ''FunctionReplyChain'' (history s1)) \<and>
                  calls_of (trace s2) =
                    calls_of (trace s1) @ [(''FunctionReplyChain'', history s1)]
       else weather_bot c s user_input = (s1, outputs, None)"
    by simp
next
  assume chain: "weather_chain_err c s user_input = (s1', outputs', None)"
    and nonempty: "outputs' \<noteq> []"
  from chain have "weather_bot_err c s user_input = reply_if_function c s1' outputs'"
    by (simp add: weather_bot_err_def and_then_def)
  with reply_if_function_result [OF weather_chain_err_history [OF chain] nonempty, of c]
  show "if delta_role (last outputs') = Some ''function''
       then \<exists>s2. weather_bot_err c s user_input =
                    (s2, completion c ''FunctionReplyChain'' (history s1'), None) \<and>
                  update_deltas_on_memory (history s1')
                    (completion c ''FunctionReplyChain'' (history s1')) =
                    Inr (history s2, completion c ''FunctionReplyChain'' (history s1')) \<and>
                  calls_of (trace s2) =
                    calls_of (trace s1') @ [(''FunctionReplyChain'', history s1')]
       else weather_bot_err c s user_input = (s1', outputs', None)"
    by simp
qed

subsection \<open>The documented scenarios, replayed\<close>

lemma example_completion [simp]:
  "completion (example first_stream) chain messages =
     (if chain = ''WeatherChain'' then first_stream else assistant_reply)"
  by (simp add: example_def)

lemma amsterdam_call:
  "call_get_current_weather (example first_stream) amsterdam_arguments =
     Inr \<lparr>delta_role = Some ''function'', delta_content = amsterdam_result,
          delta_name = Some ''get_current_weather''\<rparr>"
  by (simp add: call_get_current_weather_def get_current_weather_def example_def
      example_loads_def example_dumps_def)

lemma empty_arguments_call:
  "call_get_current_weather (example first_stream) ''{}'' =
     Inl (TypeError (''get_current_weather() missing 1 required positional argument: '' @
                     [CHR 0x27] @ ''location'' @ [CHR 0x27]))"
  by (simp add: call_get_current_weather_def get_current_weather_def example_def
      example_loads_def amsterdam_arguments_def)

lemma empty_document_call:
  "call_get_current_weather (example first_stream) [] =
     Inl (JSONDecodeError ''Expecting value: line 1 column 1 (char 0)'')"
  by (simp add: call_get_current_weather_def example_def example_loads_def amsterdam_arguments_def)

lemma amsterdam_weather_chain:
  "weather_chain (example [function_call amsterdam_arguments]) new_session ''is it hot today in Amsterdam?'' =
     (\<lparr>history =
         [\<lparr>msg_role = ''user'', msg_content = ''is it hot today in Amsterdam?'', msg_name = None\<rparr>,
          \<lparr>msg_role = ''function'', msg_content = amsterdam_result,
            msg_name = Some ''get_current_weather''\<rparr>],
       trace =
         [Call ''WeatherChain''
            [\<lparr>msg_role = ''user'', msg_content = ''is it hot today in Amsterdam?'', msg_name = None\<rparr>],
          Chunk ''WeatherChain'' (function_call amsterdam_arguments)]\<rparr>,
      [\<lparr>delta_role = Some ''function'', delta_content = amsterdam_result,
         delta_name = Some ''get_current_weather''\<rparr>],
      None)"
  by (simp add: weather_chain_def save_message_to_memory_def call_def new_session_def
      weather_chain_chunk_def maybe_dispatch_def receive_def amsterdam_call
      map_update_delta_on_memory_def update_delta_on_memory_def function_call_def)

lemma api_reply_inside_loop:
  "trace (fst (reply_function_call (example [])
      \<lparr>history =
         [\<lparr>msg_role = ''user'', msg_content = ''is it hot today in Amsterdam?'', msg_name = None\<rparr>,
          \<lparr>msg_role = ''function'', msg_content = amsterdam_result,
            msg_name = Some ''get_current_weather''\<rparr>],
       trace = []\<rparr>
      [\<lparr>delta_role = Some ''function'', delta_content = amsterdam_result,
         delta_name = Some ''get_current_weather''\<rparr>,
       \<lparr>delta_role = Some ''assistant'', delta_content = ''Bye'', delta_name = None\<rparr>])) =
     [Chunk ''WeatherChain''
        \<lparr>delta_role = Some ''function'', delta_content = amsterdam_result,
          delta_name = Some ''get_current_weather''\<rparr>,
      Call ''FunctionReplyChain''
        [\<lparr>msg_role = ''user'', msg_content = ''is it hot today in Amsterdam?'', msg_name = None\<rparr>,
         \<lparr>msg_role = ''function'', msg_content = amsterdam_result,
           msg_name = Some ''get_current_weather''\<rparr>],
      Chunk ''FunctionReplyChain'' (assistant_reply ! 0),
      Chunk ''FunctionReplyChain'' (assistant_reply ! 1),
      Chunk ''WeatherChain''
        \<lparr>delta_role = Some ''assistant'', delta_content = ''Bye'', delta_name = None\<rparr>]"
  by (simp add: reply_function_call_def reply_function_call_unit_def call_def receive_def
      assistant_reply_def)

lemma empty_arguments_weather_chain_err:
  "weather_chain_err (example [function_call ''{}'']) new_session ''is it hot today?'' =
     (\<lparr>history =
         [\<lparr>msg_role = ''user'', msg_content = ''is it hot today?'', msg_name = None\<rparr>,
          \<lparr>msg_role = ''function'', msg_content = ''{}'', msg_name = Some ''get_current_weather''\<rparr>,
          \<lparr>msg_role = ''user'',
            msg_content = ''get_current_weather() missing 1 required positional argument: '' @
                          [CHR 0x27] @ ''location'' @ [CHR 0x27],
            msg_name = None\<rparr>,
          \<lparr>msg_role = ''assistant'', msg_content = ''It is sunny.'', msg_name = None\<rparr>],
       trace =
         [Call ''WeatherChain''
            [system_message,
             \<lparr>msg_role = ''user'', msg_content = ''is it hot today?'', msg_name = None\<rparr>],
          Chunk ''WeatherChain'' (function_call ''{}''),
          Call ''FunctionErrorChain''
            [\<lparr>msg_role = ''user'', msg_content = ''is it hot today?'', msg_name = None\<rparr>,
             \<lparr>msg_role = ''function'', msg_content = ''{}'', msg_name = Some ''get_current_weather''\<rparr>,
             \<lparr>msg_role = ''user'',
               msg_content = ''get_current_weather() missing 1 required positional argument: '' @
                             [CHR 0x27] @ ''location'' @ [CHR 0x27],
               msg_name = None\<rparr>],
          Chunk ''FunctionErrorChain'' (assistant_reply ! 0),
          Chunk ''FunctionErrorChain'' (assistant_reply ! 1)]\<rparr>,
      assistant_reply, None)"
  by (simp add: weather_chain_err_def save_message_to_memory_def
      call_def new_session_def maybe_dispatch_saving_def receive_def function_call_def
      empty_arguments_call error_handler_def function_error_chain_def assistant_reply_def
      map_update_delta_on_memory_def update_delta_on_memory_def)

theorem follow_up_trigger_witness:
  "weather_chain (example [function_call amsterdam_arguments]) new_session ''is it hot today in Amsterdam?'' =
     (\<lparr>history =
         [\<lparr>msg_role = ''user'', msg_content = ''is it hot today in Amsterdam?'', msg_name = None\<rparr>,
          \<lparr>msg_role = ''function'', msg_content = amsterdam_result,
            msg_name = Some ''get_current_weather''\<rparr>],
       trace =
         [Call ''WeatherChain''
            [\<lparr>msg_role = ''user'', msg_content = ''is it hot today in Amsterdam?'', msg_name = None\<rparr>],
          Chunk ''WeatherChain'' (function_call amsterdam_arguments)]\<rparr>,
      [\<lparr>delta_role = Some ''function'', delta_content = amsterdam_result,
         delta_name = Some ''get_current_weather''\<rparr>],
      None) \<and>
   [\<lparr>delta_role = Some ''function'', delta_content = amsterdam_result,
      delta_name = Some ''get_current_weather''\<rparr>] \<noteq> [] \<and>
   (\<exists>s2. weather_bot (example [function_call amsterdam_arguments]) new_session
            ''is it hot today in Amsterdam?'' = (s2, assistant_reply, None) \<and>
         calls_of (trace s2) =
           [(''WeatherChain'',
             [\<lparr>msg_role = ''user'', msg_content = ''is it hot today in Amsterdam?'', msg_name = None\<rparr>]),
            (''FunctionReplyChain'',
             [\<lparr>msg_role = ''user'', msg_content = ''is it hot today in Amsterdam?'', msg_name = None\<rparr>,
              \<lparr>msg_role = ''function'', msg_content = amsterdam_result,
                msg_name = Some ''get_current_weather''\<rparr>])]) \<and>
   fst (snd (weather_chain_err (example [function_call ''{}'']) new_session ''is it hot today?'')) =
     assistant_reply \<and>
   snd (snd (weather_chain_err (example [function_call ''{}'']) new_session ''is it hot today?'')) =
     None \<and>
   assistant_reply \<noteq> [] \<and>
   delta_role (last assistant_reply) = None \<and>
   weather_bot_err (example [function_call ''{}'']) new_session ''is it hot today?'' =
     weather_chain_err (example [function_call ''{}'']) new_session ''is it hot today?''"
proof -
  let ?u = "\<lparr>msg_role = ''user'', msg_content = ''is it hot today in Amsterdam?'', msg_name = None\<rparr>"
  let ?f = "\<lparr>msg_role = ''function'', msg_content = amsterdam_result,
             msg_name = Some ''get_current_weather''\<rparr>"
  let ?out = "\<lparr>delta_role = Some ''function'', delta_content = amsterdam_result,
               delta_name = Some ''get_current_weather''\<rparr>"
  have nonempty: "[?out] \<noteq> []"
    by simp
  from follow_up_trigger [THEN conjunct1, rule_format, OF amsterdam_weather_chain nonempty]
  have "\<exists>s2. weather_bot (example [function_call amsterdam_arguments]) new_session
               ''is it hot today in Amsterdam?'' = (s2, assistant_reply, None) \<and>
             update_deltas_on_memory [?u, ?f] assistant_reply = Inr (history s2, assistant_reply) \<and>
             calls_of (trace s2) =
               [(''WeatherChain'', [?u]), (''FunctionReplyChain'', [?u, ?f])]"
    by (simp add: new_session_def)
  then obtain s2 where
    "weather_bot (example [function_call amsterdam_arguments]) new_session
       ''is it hot today in Amsterdam?'' = (s2, assistant_reply, None) \<and>
     calls_of (trace s2) = [(''WeatherChain'', [?u]), (''FunctionReplyChain'', [?u, ?f])]"
    by blast
  then have base: "\<exists>s2. weather_bot (example [function_call amsterdam_arguments]) new_session
       ''is it hot today in Amsterdam?'' = (s2, assistant_reply, None) \<and>
     calls_of (trace s2) = [(''WeatherChain'', [?u]), (''FunctionReplyChain'', [?u, ?f])]"
    by (rule exI [of _ s2])
  have reply: "assistant_reply \<noteq> []" and role: "delta_role (last assistant_reply) = None"
    by (simp_all add: assistant_reply_def)
  from follow_up_trigger [THEN conjunct2, rule_format, OF empty_arguments_weather_chain_err reply]
    role
  have "weather_bot_err (example [function_call ''{}'']) new_session ''is it hot today?'' =
      weather_chain_err (example [function_call ''{}'']) new_session ''is it hot today?''"
    by (simp add: empty_arguments_weather_chain_err)
  moreover
  have "fst (snd (weather_chain_err (example [function_call ''{}'']) new_session ''is it hot today?'')) =
      assistant_reply"
    and "snd (snd (weather_chain_err (example [function_call ''{}'']) new_session ''is it hot today?'')) =
      None"
    by (simp_all add: empty_arguments_weather_chain_err)
  ultimately show ?thesis
    using amsterdam_weather_chain nonempty base reply role by (intro conjI)
qed

text \<open>
  The claim as the specification words it speaks of every turn. In the weather bot a
  turn in which the model calls the function with the arguments \<^verbatim>\<open>{}\<close> ends otherwise:
  the last (and only) delta of the model's stream has role \<^verbatim>\<open>function\<close>, the call raises
  \<^verbatim>\<open>TypeError\<close>, nothing handles it, and the turn ends with that exception after the one
  request of \<^verbatim>\<open>WeatherChain\<close>: no follow-up request is made. And the generator of the bot
  served with FastAPI, given the result of the Amsterdam call followed by a delta of role
  \<^verbatim>\<open>assistant\<close>, reads a stream whose last unit has another role than \<^verbatim>\<open>function\<close>, yet
  it makes one follow-up request.
\<close>

theorem follow_up_trigger_counterexample:
  "delta_role (last (completion (example [function_call ''{}'']) ''WeatherChain''
      [\<lparr>msg_role = ''user'', msg_content = ''is it hot today?'', msg_name = None\<rparr>])) =
     Some ''function'' \<and>
   weather_bot (example [function_call ''{}'']) new_session ''is it hot today?'' =
     (\<lparr>history = [\<lparr>msg_role = ''user'', msg_content = ''is it hot today?'', msg_name = None\<rparr>],
       trace =
         [Call ''WeatherChain''
            [\<lparr>msg_role = ''user'', msg_content = ''is it hot today?'', msg_name = None\<rparr>],
          Chunk ''WeatherChain'' (function_call ''{}'')]\<rparr>,
      [],
      Some (TypeError (''get_current_weather() missing 1 required positional argument: '' @
                       [CHR 0x27] @ ''location'' @ [CHR 0x27]))) \<and>
   calls_of (trace (fst (weather_bot (example [function_call ''{}'']) new_session ''is it hot today?''))) =
     [(''WeatherChain'',
       [\<lparr>msg_role = ''user'', msg_content = ''is it hot today?'', msg_name = None\<rparr>])] \<and>
   delta_role (last [\<lparr>delta_role = Some ''function'', delta_content = amsterdam_result,
                       delta_name = Some ''get_current_weather''\<rparr>,
                     \<lparr>delta_role = Some ''assistant'', delta_content = ''Bye'', delta_name = None\<rparr>]) =
     Some ''assistant'' \<and>
   calls_of (trace (fst (reply_function_call (example [])
      \<lparr>history =
         [\<lparr>msg_role = ''user'', msg_content = ''is it hot today in Amsterdam?'', msg_name = None\<rparr>,
          \<lparr>msg_role = ''function'', msg_content = amsterdam_result,
            msg_name = Some ''get_current_weather''\<rparr>],
       trace = []\<rparr>
      [\<lparr>delta_role = Some ''function'', delta_content = amsterdam_result,
         delta_name = Some ''get_current_weather''\<rparr>,
       \<lparr>delta_role = Some ''assistant'', delta_content = ''Bye'', delta_name = None\<rparr>]))) =
     [(''FunctionReplyChain'',
       [\<lparr>msg_role = ''user'', msg_content = ''is it hot today in Amsterdam?'', msg_name = None\<rparr>,
        \<lparr>msg_role = ''function'', msg_content = amsterdam_result,
          msg_name = Some ''get_current_weather''\<rparr>])]"
proof -
  have "weather_bot (example [function_call ''{}'']) new_session ''is it hot today?'' =
     (\<lparr>history = [\<lparr>msg_role = ''user'', msg_content = ''is it hot today?'', msg_name = None\<rparr>],
       trace =
         [Call ''WeatherChain''
            [\<lparr>msg_role = ''user'', msg_content = ''is it hot today?'', msg_name = None\<rparr>],
          Chunk ''WeatherChain'' (function_call ''{}'')]\<rparr>,
      [],
      Some (TypeError (''get_current_weather() missing 1 required positional argument: '' @
                       [CHR 0x27] @ ''location'' @ [CHR 0x27])))"
    by (simp add: weather_bot_def and_then_def weather_chain_def save_message_to_memory_def
        call_def new_session_def weather_chain_chunk_def maybe_dispatch_def receive_def
        function_call_def empty_arguments_call)
  then show ?thesis
    unfolding api_reply_inside_loop by (simp add: function_call_def)
qed

section \<open>Dispatch and error recovery\<close>

text \<open>
  C4, as the code has it. Both dispatch lambdas are functions of the delta alone, for given
  collaborators: the delta they return, or the exception they raise, does not depend on
  the session, so equal deltas give equal results. The lambda of the weather bot returns
  the session as it found it, for every delta. The lambda of the bot with error handling
  leaves the session alone when the delta is not a call of \<^verbatim>\<open>get_current_weather\<close>; when
  it is one, the lambda first appends a \<^verbatim>\<open>function\<close> message holding the argument string
  to the history, whether the call then succeeds or raises.
\<close>

theorem dispatch_effect_on_store:
  "fst (maybe_dispatch c s delta) = s \<and>
   snd (maybe_dispatch c s delta) = snd (maybe_dispatch c s' delta) \<and>
   snd (maybe_dispatch_saving c s delta) = snd (maybe_dispatch c s' delta) \<and>
   fst (maybe_dispatch_saving c s delta) =
     (if delta_role delta = Some ''function'' \<and> delta_name delta = Some ''get_current_weather''
      then s\<lparr>history := history s @
                 [\<lparr>msg_role = ''function'', msg_content = delta_content delta,
                   msg_name = Some ''get_current_weather''\<rparr>]\<rparr>
      else s)"
  by (simp add: maybe_dispatch_def maybe_dispatch_saving_def save_message_to_memory_def)

text \<open>
  The specification's wording, that the store after the dispatch step equals the store
  before it whether or not dispatch triggers, fails for the lambda of the bot with error
  handling: on the Amsterdam call it has stored the call.
\<close>

theorem dispatch_effect_on_store_counterexample:
  "history (fst (maybe_dispatch_saving (example []) new_session (function_call amsterdam_arguments))) =
     [\<lparr>msg_role = ''function'', msg_content = amsterdam_arguments,
       msg_name = Some ''get_current_weather''\<rparr>] \<and>
   fst (maybe_dispatch_saving (example []) new_session (function_call amsterdam_arguments)) \<noteq>
     new_session"
proof -
  have stored:
    "history (fst (maybe_dispatch_saving (example []) new_session (function_call amsterdam_arguments))) =
       [\<lparr>msg_role = ''function'', msg_content = amsterdam_arguments,
         msg_name = Some ''get_current_weather''\<rparr>]"
    by (simp add: maybe_dispatch_saving_def save_message_to_memory_def function_call_def
        new_session_def)
  have "history new_session = []"
    by (simp add: new_session_def)
  with stored show ?thesis
    by auto
qed






text \<open>
  A decoding error whose text does not hold the function's name ends the chain wherever
  in the stream the call stands: the call is already stored, and nothing follows it.
\<close>

lemma weather_chain_err_stream_reraises:
  assumes "delta_role delta = Some ''function''" and "delta_name delta = Some ''get_current_weather''"
    and "json_loads c (delta_content delta) = Inl e"
    and "\<not> str_in ''get_current_weather'' (str_of e)"
  shows "weather_chain_err_stream c s (delta # deltas) =
           (s\<lparr>history := history s @
                  [\<lparr>msg_role = ''function'', msg_content = delta_content delta,
                    msg_name = Some ''get_current_weather''\<rparr>],
               trace := trace s @ [Chunk ''WeatherChain'' delta]\<rparr>,
            [], Some e)"
proof -
  let ?s1 = "s\<lparr>history := history s @
                  [\<lparr>msg_role = ''function'', msg_content = delta_content delta,
                    msg_name = Some ''get_current_weather''\<rparr>],
               trace := trace s @ [Chunk ''WeatherChain'' delta]\<rparr>"
  from assms(3) have "call_get_current_weather c (delta_content delta) = Inl e"
    by (simp add: call_get_current_weather_def)
  with assms(1,2)
  have dispatch: "maybe_dispatch_saving c (receive ''WeatherChain'' delta s) delta = (?s1, Inl e)"
    by (simp add: maybe_dispatch_saving_def save_message_to_memory_def receive_def)
  from assms(4) have handler: "error_handler c ?s1 e = (?s1, Inl e)"
    by (simp add: error_handler_def)
  from dispatch handler show ?thesis
    by simp
qed

text \<open>
  C6. Here the code does not do what the specification says, nor what its own comments
  say. The comment of \<open>error_handler\<close> reads
  \<^verbatim>\<open>Try to recover from the error if it happened on the function calling\<close>, and in the
  dispatch lambda the comment \<^verbatim>\<open>Then we call the function\<close> stands over the line that holds
  \<^verbatim>\<open>json.loads\<close>: decoding the arguments is part of the call. But the handler tells a
  failed call by the function's name in the text of the exception, and the text of a
  decoding error, \<^verbatim>\<open>Expecting value: line 1 column 1 (char 0)\<close>, does not hold it. Replayed
  on the bot with error handling, the two failures of a call part ways. With an empty
  argument string the decoder raises: the turn ends with that exception, the history
  holds the user's message and the stored call, which nothing answers, and
  \<^verbatim>\<open>WeatherChain\<close> is the only request made. With the arguments \<^verbatim>\<open>{}\<close> the call raises a
  \<^verbatim>\<open>TypeError\<close> that names the function: its text is stored as a \<^verbatim>\<open>user\<close> message,
  \<^verbatim>\<open>FunctionErrorChain\<close> is requested and the turn ends with the model's reply.
\<close>

theorem undecodable_arguments_not_recovered:
  "weather_bot_err (example [function_call []]) new_session ''is it hot today?'' =
     (\<lparr>history =
         [\<lparr>msg_role = ''user'', msg_content = ''is it hot today?'', msg_name = None\<rparr>,
          \<lparr>msg_role = ''function'', msg_content = [], msg_name = Some ''get_current_weather''\<rparr>],
       trace =
         [Call ''WeatherChain''
            [system_message,
             \<lparr>msg_role = ''user'', msg_content = ''is it hot today?'', msg_name = None\<rparr>],
          Chunk ''WeatherChain'' (function_call [])]\<rparr>,
      [], Some (JSONDecodeError ''Expecting value: line 1 column 1 (char 0)'')) \<and>
   weather_bot_err (example [function_call ''{}'']) new_session ''is it hot today?'' =
     (\<lparr>history =
         [\<lparr>msg_role = ''user'', msg_content = ''is it hot today?'', msg_name = None\<rparr>,
          \<lparr>msg_role = ''function'', msg_content = ''{}'', msg_name = Some ''get_current_weather''\<rparr>,
          \<lparr>msg_role = ''user'',
            msg_content = ''get_current_weather() missing 1 required positional argument: '' @
                          [CHR 0x27] @ ''location'' @ [CHR 0x27],
            msg_name = None\<rparr>,
          \<lparr>msg_role = ''assistant'', msg_content = ''It is sunny.'', msg_name = None\<rparr>],
       trace =
         [Call ''WeatherChain''
            [system_message,
             \<lparr>msg_role = ''user'', msg_content = ''is it hot today?'', msg_name = None\<rparr>],
          Chunk ''WeatherChain'' (function_call ''{}''),
          Call ''FunctionErrorChain''
            [\<lparr>msg_role = ''user'', msg_content = ''is it hot today?'', msg_name = None\<rparr>,
             \<lparr>msg_role = ''function'', msg_content = ''{}'', msg_name = Some ''get_current_weather''\<rparr>,
             \<lparr>msg_role = ''user'',
               msg_content = ''get_current_weather() missing 1 required positional argument: '' @
                             [CHR 0x27] @ ''location'' @ [CHR 0x27],
               msg_name = None\<rparr>],
          Chunk ''FunctionErrorChain'' (assistant_reply ! 0),
          Chunk ''FunctionErrorChain'' (assistant_reply ! 1)]\<rparr>,
      assistant_reply, None)"
proof (intro conjI)
  show "weather_bot_err (example [function_call []]) new_session ''is it hot today?'' =
     (\<lparr>history =
         [\<lparr>msg_role = ''user'', msg_content = ''is it hot today?'', msg_name = None\<rparr>,
          \<lparr>msg_role = ''function'', msg_content = [], msg_name = Some ''get_current_weather''\<rparr>],
       trace =
         [Call ''WeatherChain''
            [system_message,
             \<lparr>msg_role = ''user'', msg_content = ''is it hot today?'', msg_name = None\<rparr>],
          Chunk ''WeatherChain'' (function_call [])]\<rparr>,
      [], Some (JSONDecodeError ''Expecting value: line 1 column 1 (char 0)''))"
    by (simp add: weather_bot_err_def and_then_def weather_chain_err_def save_message_to_memory_def
        call_def new_session_def maybe_dispatch_saving_def receive_def function_call_def
        empty_document_call error_handler_def)
next
  show "weather_bot_err (example [function_call ''{}'']) new_session ''is it hot today?'' =
     (\<lparr>history =
         [\<lparr>msg_role = ''user'', msg_content = ''is it hot today?'', msg_name = None\<rparr>,
          \<lparr>msg_role = ''function'', msg_content = ''{}'', msg_name = Some ''get_current_weather''\<rparr>,
          \<lparr>msg_role = ''user'',
            msg_content = ''get_current_weather() missing 1 required positional argument: '' @
                          [CHR 0x27] @ ''location'' @ [CHR 0x27],
            msg_name = None\<rparr>,
          \<lparr>msg_role = ''assistant'', msg_content = ''It is sunny.'', msg_name = None\<rparr>],
       trace =
         [Call ''WeatherChain''
            [system_message,
             \<lparr>msg_role = ''user'', msg_content = ''is it hot today?'', msg_name = None\<rparr>],
          Chunk ''WeatherChain'' (function_call ''{}''),
          Call ''FunctionErrorChain''
            [\<lparr>msg_role = ''user'', msg_content = ''is it hot today?'', msg_name = None\<rparr>,
             \<lparr>msg_role = ''function'', msg_content = ''{}'', msg_name = Some ''get_current_weather''\<rparr>,
             \<lparr>msg_role = ''user'',
               msg_content = ''get_current_weather() missing 1 required positional argument: '' @
                             [CHR 0x27] @ ''location'' @ [CHR 0x27],
               msg_name = None\<rparr>],
          Chunk ''FunctionErrorChain'' (assistant_reply ! 0),
          Chunk ''FunctionErrorChain'' (assistant_reply ! 1)]\<rparr>,
      assistant_reply, None)"
    by (simp add: weather_bot_err_def and_then_def weather_chain_err_def save_message_to_memory_def
        call_def new_session_def maybe_dispatch_saving_def receive_def function_call_def
        empty_arguments_call error_handler_def function_error_chain_def assistant_reply_def
        map_update_delta_on_memory_def update_delta_on_memory_def reply_if_function_def)
qed

section \<open>Order of folding and of the follow-up request\<close>

lemma drained_chunks: "drained_before_reply (map (Chunk chain) deltas)"
  by (induction deltas) simp_all

lemma drained_chunks_append:
  "drained_before_reply (map (Chunk chain) deltas @ es) = drained_before_reply es"
  by (induction deltas) simp_all

lemma drained_first_stream:
  "drained_before_reply (Call ''WeatherChain'' messages # map (Chunk ''WeatherChain'') deltas)"
  by (simp add: drained_chunks)

lemma drained_first_stream_then_reply:
  "drained_before_reply
     (Call ''WeatherChain'' messages # map (Chunk ''WeatherChain'') deltas @
      Call ''FunctionReplyChain'' messages' # map (Chunk ''FunctionReplyChain'') reply)"
  by (simp add: drained_chunks_append list_all_iff)

lemma reply_if_function_trace:
  assumes "history s \<noteq> []"
  shows "trace (fst (reply_if_function c s outputs)) = trace s \<or>
         trace (fst (reply_if_function c s outputs)) =
           trace s @ Call ''FunctionReplyChain'' (history s) #
             map (Chunk ''FunctionReplyChain'') (completion c ''FunctionReplyChain'' (history s))"
proof (cases "outputs \<noteq> [] \<and> delta_role (last outputs) = Some ''function''")
  case True
  from function_reply_chain_replies [OF assms, of c]
  obtain hist' where "function_reply_chain c s =
      (s\<lparr>history := hist',
          trace := trace s @ Call ''FunctionReplyChain'' (history s) #
            map (Chunk ''FunctionReplyChain'') (completion c ''FunctionReplyChain'' (history s))\<rparr>,
       completion c ''FunctionReplyChain'' (history s), None)"
    by blast
  with True show ?thesis
    by (simp add: reply_if_function_def)
next
  case False
  then show ?thesis
    by (auto simp add: reply_if_function_def)
qed

text \<open>The result of the dispatch lambda does not depend on the session.\<close>

lemma maybe_dispatch_session:
  "maybe_dispatch c s delta = (s, snd (maybe_dispatch c s0 delta))"
  by (simp add: maybe_dispatch_def)

text \<open>
  The base chain reads the model's stream from its first delta on, one delta after the
  other: its outputs are the dispatched deltas of a prefix of the stream, in the order
  of the stream, and the deltas it has consumed are that prefix, with the delta at which
  an exception ended the chain, if one did.
\<close>

lemma weather_chain_chunks_order:
  assumes "async_for (weather_chain_chunk c) s deltas = (s', outputs, r)"
  shows "map Inr outputs = map (\<lambda>d. snd (maybe_dispatch c s0 d)) (take (length outputs) deltas) \<and>
         trace s' =
           trace s @
           map (Chunk ''WeatherChain'')
             (take (if r = None then length outputs else Suc (length outputs)) deltas) \<and>
         (r \<noteq> None \<longrightarrow> length outputs < length deltas)"
  using assms
proof (induction deltas arbitrary: s s' outputs r)
  case Nil
  then show ?case by simp
next
  case (Cons d ds)
  let ?s0 = "receive ''WeatherChain'' d s"
  have stopped: ?case if chunk: "weather_chain_chunk c s d = (?s0, [], Some e)" for e
  proof -
    from chunk Cons.prems have "s' = ?s0" "outputs = []" "r = Some e"
      by simp_all
    then show ?thesis
      by (simp add: receive_def)
  qed
  show ?case
  proof (cases "snd (maybe_dispatch c s0 d)")
    case (Inl e)
    with maybe_dispatch_session [of c ?s0 d s0]
    have "weather_chain_chunk c s d = (?s0, [], Some e)"
      by (simp add: weather_chain_chunk_def)
    then show ?thesis by (rule stopped)
  next
    case (Inr d')
    with maybe_dispatch_session [of c ?s0 d s0]
    have dispatch: "maybe_dispatch c ?s0 d = (?s0, Inr d')"
      by simp
    show ?thesis
    proof (cases "update_delta_on_memory (history s) d'")
      case (Inl e)
      with dispatch have "weather_chain_chunk c s d = (?s0, [], Some e)"
        by (simp add: weather_chain_chunk_def map_update_delta_on_memory_def receive_def)
      then show ?thesis by (rule stopped)
    next
      case upd: (Inr p)
      obtain h1 d1 where p: "p = (h1, d1)" by (cases p)
      from upd p have d1: "d1 = d'"
        by (auto simp add: update_delta_on_memory_def split: if_splits)
      let ?s1 = "?s0\<lparr>history := h1\<rparr>"
      from dispatch upd p d1 have chunk: "weather_chain_chunk c s d = (?s1, [d'], None)"
        by (simp add: weather_chain_chunk_def map_update_delta_on_memory_def receive_def)
      obtain s2 zs r2 where rec: "async_for (weather_chain_chunk c) ?s1 ds = (s2, zs, r2)"
        by (cases "async_for (weather_chain_chunk c) ?s1 ds") auto
      from chunk rec Cons.prems
      have res: "s' = s2" "outputs = d' # zs" "r = r2"
        by simp_all
      from Cons.IH [OF rec]
      have ih: "map Inr zs = map (\<lambda>d. snd (maybe_dispatch c s0 d)) (take (length zs) ds)"
        "trace s2 =
           trace ?s1 @
           map (Chunk ''WeatherChain'') (take (if r2 = None then length zs else Suc (length zs)) ds)"
        "r2 \<noteq> None \<longrightarrow> length zs < length ds"
        by simp_all
      from ih(1) Inr res
      have "map Inr outputs = map (\<lambda>d. snd (maybe_dispatch c s0 d)) (take (length outputs) (d # ds))"
        by simp
      moreover from ih(2) res
      have "trace s' =
           trace s @
           map (Chunk ''WeatherChain'')
             (take (if r = None then length outputs else Suc (length outputs)) (d # ds))"
        by (simp add: receive_def)
      moreover from ih(3) res have "r \<noteq> None \<longrightarrow> length outputs < length (d # ds)"
        by simp
      ultimately show ?thesis
        by (intro conjI)
    qed
  qed
qed

lemma reply_if_function_state:
  assumes "history s1 \<noteq> []" and "outputs \<noteq> []" and "delta_role (last outputs) = Some ''function''"
  shows "trace (fst (reply_if_function c s1 outputs)) =
           trace s1 @ Call ''FunctionReplyChain'' (history s1) #
             map (Chunk ''FunctionReplyChain'') (completion c ''FunctionReplyChain'' (history s1)) \<and>
         update_deltas_on_memory (history s1) (completion c ''FunctionReplyChain'' (history s1)) =
           Inr (history (fst (reply_if_function c s1 outputs)),
                completion c ''FunctionReplyChain'' (history s1))"
proof -
  from function_reply_chain_replies [OF assms(1), of c]
  obtain hist' where "update_deltas_on_memory (history s1)
        (completion c ''FunctionReplyChain'' (history s1)) =
        Inr (hist', completion c ''FunctionReplyChain'' (history s1))"
    and "function_reply_chain c s1 =
        (s1\<lparr>history := hist',
            trace := trace s1 @ Call ''FunctionReplyChain'' (history s1) #
              map (Chunk ''FunctionReplyChain'') (completion c ''FunctionReplyChain'' (history s1))\<rparr>,
         completion c ''FunctionReplyChain'' (history s1), None)"
    by blast
  with assms(2,3) show ?thesis
    by (simp add: reply_if_function_def)
qed

text \<open>
  C7, as the code has it, for the weather bot composed with \<^verbatim>\<open>and_then\<close>. Take any turn and
  let the first chain leave the session \<open>s1\<close>, having yielded \<open>outputs\<close> and ended with \<open>r\<close>
  (an exception or none). The outputs are the deltas of the model's stream after the
  dispatch step, from the first delta on and in the order of the stream, and the history
  of \<open>s1\<close> is those outputs folded in that order into the history that holds the user's
  message. The events of the first chain are its request and then the deltas of the
  model's stream, consumed in order: all of them when no exception ends the chain, and
  up to the delta that raised otherwise. The bot sends the follow-up request only when
  the first chain ended without an exception and its last output has role \<^verbatim>\<open>function\<close>;
  then every delta of the model's stream has been consumed before the request of
  \<^verbatim>\<open>FunctionReplyChain\<close>, whose reply is read and folded after it. In every other case
  the bot leaves the session as the first chain left it. So no delta of the first stream
  is consumed once the follow-up has been requested.
\<close>

theorem follow_up_after_first_stream:
  assumes "weather_chain c s user_input = (s1, outputs, r)"
  shows "map Inr outputs =
           map (\<lambda>d. snd (maybe_dispatch c s d))
             (take (length outputs)
                (completion c ''WeatherChain''
                   (history s @ [\<lparr>msg_role = ''user'', msg_content = user_input, msg_name = None\<rparr>]))) \<and>
         update_deltas_on_memory
           (history s @ [\<lparr>msg_role = ''user'', msg_content = user_input, msg_name = None\<rparr>]) outputs =
           Inr (history s1, outputs) \<and>
         trace s1 =
           trace s @
           Call ''WeatherChain''
             (history s @ [\<lparr>msg_role = ''user'', msg_content = user_input, msg_name = None\<rparr>]) #
           map (Chunk ''WeatherChain'')
             (take (if r = None then length outputs else Suc (length outputs))
                (completion c ''WeatherChain''
                   (history s @ [\<lparr>msg_role = ''user'', msg_content = user_input, msg_name = None\<rparr>]))) \<and>
         (if r = None
          then length outputs =
                 length (completion c ''WeatherChain''
                   (history s @ [\<lparr>msg_role = ''user'', msg_content = user_input, msg_name = None\<rparr>]))
          else length outputs <
                 length (completion c ''WeatherChain''
                   (history s @ [\<lparr>msg_role = ''user'', msg_content = user_input, msg_name = None\<rparr>]))) \<and>
         (if r = None \<and> outputs \<noteq> [] \<and> delta_role (last outputs) = Some ''function''
          then trace (fst (weather_bot c s user_input)) =
                 trace s @
                 Call ''WeatherChain''
                   (history s @ [\<lparr>msg_role = ''user'', msg_content = user_input, msg_name = None\<rparr>]) #
                 map (Chunk ''WeatherChain'')
                   (completion c ''WeatherChain''
                      (history s @ [\<lparr>msg_role = ''user'', msg_content = user_input, msg_name = None\<rparr>])) @
                 Call ''FunctionReplyChain'' (history s1) #
                 map (Chunk ''FunctionReplyChain'') (completion c ''FunctionReplyChain'' (history s1)) \<and>
               update_deltas_on_memory (history s1) (completion c ''FunctionReplyChain'' (history s1)) =
                 Inr (history (fst (weather_bot c s user_input)),
                      completion c ''FunctionReplyChain'' (history s1))
          else fst (weather_bot c s user_input) = s1) \<and>
         drained_before_reply (drop (length (trace s)) (trace (fst (weather_bot c s user_input))))"
proof -
  let ?u = "\<lparr>msg_role = ''user'', msg_content = user_input, msg_name = None\<rparr>"
  let ?ctx = "history s @ [?u]"
  let ?stream = "completion c ''WeatherChain'' ?ctx"
  let ?s0 = "s\<lparr>history := ?ctx, trace := trace s @ [Call ''WeatherChain'' ?ctx]\<rparr>"
  let ?k = "if r = None then length outputs else Suc (length outputs)"
  let ?reply = "completion c ''FunctionReplyChain'' (history s1)"
  from assms have run: "async_for (weather_chain_chunk c) ?s0 ?stream = (s1, outputs, r)"
    by (simp add: weather_chain_def save_message_to_memory_def call_def)
  note order = weather_chain_chunks_order [OF run, of s]
  note facts = weather_chain_result [OF assms]
  from order have images: "map Inr outputs =
      map (\<lambda>d. snd (maybe_dispatch c s d)) (take (length outputs) ?stream)"
    by simp
  from order have tr1: "trace s1 = trace s @ Call ''WeatherChain'' ?ctx #
      map (Chunk ''WeatherChain'') (take ?k ?stream)"
    by simp
  have len: "if r = None then length outputs = length ?stream else length outputs < length ?stream"
  proof (cases r)
    case None
    with facts(4) show ?thesis by simp
  next
    case (Some e)
    with order show ?thesis by simp
  qed
  have bot: "if r = None \<and> outputs \<noteq> [] \<and> delta_role (last outputs) = Some ''function''
      then trace (fst (weather_bot c s user_input)) =
             trace s @ Call ''WeatherChain'' ?ctx # map (Chunk ''WeatherChain'') ?stream @
             Call ''FunctionReplyChain'' (history s1) # map (Chunk ''FunctionReplyChain'') ?reply \<and>
           update_deltas_on_memory (history s1) ?reply =
             Inr (history (fst (weather_bot c s user_input)), ?reply)
      else fst (weather_bot c s user_input) = s1"
  proof (cases "r = None \<and> outputs \<noteq> [] \<and> delta_role (last outputs) = Some ''function''")
    case True
    with assms have "weather_bot c s user_input = reply_if_function c s1 outputs"
      by (simp add: weather_bot_def and_then_def)
    moreover from True facts(4)
    have "trace s1 = trace s @ Call ''WeatherChain'' ?ctx # map (Chunk ''WeatherChain'') ?stream"
      by simp
    moreover from True have "outputs \<noteq> []" and "delta_role (last outputs) = Some ''function''"
      by simp_all
    note reply_if_function_state [OF facts(5) this, of c]
    ultimately show ?thesis
      using True by simp
  next
    case False
    with assms have eq: "fst (weather_bot c s user_input) = s1"
      by (cases r) (auto simp add: weather_bot_def and_then_def reply_if_function_def)
    show ?thesis
      unfolding if_not_P [OF False] by (rule eq)
  qed
  have "drained_before_reply (drop (length (trace s)) (trace (fst (weather_bot c s user_input))))"
  proof (cases "r = None \<and> outputs \<noteq> [] \<and> delta_role (last outputs) = Some ''function''")
    case True
    from bot [unfolded if_P [OF True]]
    have "drop (length (trace s)) (trace (fst (weather_bot c s user_input))) =
        Call ''WeatherChain'' ?ctx # map (Chunk ''WeatherChain'') ?stream @
        Call ''FunctionReplyChain'' (history s1) # map (Chunk ''FunctionReplyChain'') ?reply"
      by simp
    then show ?thesis
      using drained_first_stream_then_reply [of ?ctx ?stream "history s1" ?reply] by simp
  next
    case False
    from bot [unfolded if_not_P [OF False]] tr1 have "drop (length (trace s)) (trace (fst (weather_bot c s user_input))) =
        Call ''WeatherChain'' ?ctx # map (Chunk ''WeatherChain'') (take ?k ?stream)"
      by simp
    then show ?thesis
      using drained_first_stream [of ?ctx "take ?k ?stream"] by simp
  qed
  with images facts(1) tr1 len bot show ?thesis
    by (intro conjI)
qed

lemma announced_amsterdam_weather_chain:
  "weather_chain
     (example [\<lparr>delta_role = Some ''assistant'', delta_content = ''Let me check.'', delta_name = None\<rparr>,
               function_call amsterdam_arguments])
     new_session ''is it hot today in Amsterdam?'' =
     (\<lparr>history =
         [\<lparr>msg_role = ''user'', msg_content = ''is it hot today in Amsterdam?'', msg_name = None\<rparr>,
          \<lparr>msg_role = ''assistant'', msg_content = ''Let me check.'', msg_name = None\<rparr>,
          \<lparr>msg_role = ''function'', msg_content = amsterdam_result,
            msg_name = Some ''get_current_weather''\<rparr>],
       trace =
         [Call ''WeatherChain''
            [\<lparr>msg_role = ''user'', msg_content = ''is it hot today in Amsterdam?'', msg_name = None\<rparr>],
          Chunk ''WeatherChain''
            \<lparr>delta_role = Some ''assistant'', delta_content = ''Let me check.'', delta_name = None\<rparr>,
          Chunk ''WeatherChain'' (function_call amsterdam_arguments)]\<rparr>,
      [\<lparr>delta_role = Some ''assistant'', delta_content = ''Let me check.'', delta_name = None\<rparr>,
       \<lparr>delta_role = Some ''function'', delta_content = amsterdam_result,
         delta_name = Some ''get_current_weather''\<rparr>],
      None)"
  by (simp add: weather_chain_def save_message_to_memory_def call_def new_session_def
      weather_chain_chunk_def maybe_dispatch_def receive_def amsterdam_call
      map_update_delta_on_memory_def update_delta_on_memory_def function_call_def)

theorem follow_up_after_first_stream_witness:
  "weather_chain
     (example [\<lparr>delta_role = Some ''assistant'', delta_content = ''Let me check.'', delta_name = None\<rparr>,
               function_call amsterdam_arguments])
     new_session ''is it hot today in Amsterdam?'' =
     (\<lparr>history =
         [\<lparr>msg_role = ''user'', msg_content = ''is it hot today in Amsterdam?'', msg_name = None\<rparr>,
          \<lparr>msg_role = ''assistant'', msg_content = ''Let me check.'', msg_name = None\<rparr>,
          \<lparr>msg_role = ''function'', msg_content = amsterdam_result,
            msg_name = Some ''get_current_weather''\<rparr>],
       trace =
         [Call ''WeatherChain''
            [\<lparr>msg_role = ''user'', msg_content = ''is it hot today in Amsterdam?'', msg_name = None\<rparr>],
          Chunk ''WeatherChain''
            \<lparr>delta_role = Some ''assistant'', delta_content = ''Let me check.'', delta_name = None\<rparr>,
          Chunk ''WeatherChain'' (function_call amsterdam_arguments)]\<rparr>,
      [\<lparr>delta_role = Some ''assistant'', delta_content = ''Let me check.'', delta_name = None\<rparr>,
       \<lparr>delta_role = Some ''function'', delta_content = amsterdam_result,
         delta_name = Some ''get_current_weather''\<rparr>],
      None) \<and>
   trace (fst (weather_bot
     (example [\<lparr>delta_role = Some ''assistant'', delta_content = ''Let me check.'', delta_name = None\<rparr>,
               function_call amsterdam_arguments])
     new_session ''is it hot today in Amsterdam?'')) =
     [Call ''WeatherChain''
        [\<lparr>msg_role = ''user'', msg_content = ''is it hot today in Amsterdam?'', msg_name = None\<rparr>],
      Chunk ''WeatherChain''
        \<lparr>delta_role = Some ''assistant'', delta_content = ''Let me check.'', delta_name = None\<rparr>,
      Chunk ''WeatherChain'' (function_call amsterdam_arguments),
      Call ''FunctionReplyChain''
        [\<lparr>msg_role = ''user'', msg_content = ''is it hot today in Amsterdam?'', msg_name = None\<rparr>,
         \<lparr>msg_role = ''assistant'', msg_content = ''Let me check.'', msg_name = None\<rparr>,
         \<lparr>msg_role = ''function'', msg_content = amsterdam_result,
           msg_name = Some ''get_current_weather''\<rparr>],
      Chunk ''FunctionReplyChain'' (assistant_reply ! 0),
      Chunk ''FunctionReplyChain'' (assistant_reply ! 1)] \<and>
   history (fst (weather_bot
     (example [\<lparr>delta_role = Some ''assistant'', delta_content = ''Let me check.'', delta_name = None\<rparr>,
               function_call amsterdam_arguments])
     new_session ''is it hot today in Amsterdam?'')) =
     [\<lparr>msg_role = ''user'', msg_content = ''is it hot today in Amsterdam?'', msg_name = None\<rparr>,
      \<lparr>msg_role = ''assistant'', msg_content = ''Let me check.'', msg_name = None\<rparr>,
      \<lparr>msg_role = ''function'', msg_content = amsterdam_result,
        msg_name = Some ''get_current_weather''\<rparr>,
      \<lparr>msg_role = ''assistant'', msg_content = ''It is sunny.'', msg_name = None\<rparr>]"
proof -
  let ?c = "example [\<lparr>delta_role = Some ''assistant'', delta_content = ''Let me check.'',
                      delta_name = None\<rparr>,
                    function_call amsterdam_arguments]"
  note turn = follow_up_after_first_stream [OF announced_amsterdam_weather_chain]
  from turn [THEN conjunct2, THEN conjunct2, THEN conjunct2, THEN conjunct2, THEN conjunct1]
  have "trace (fst (weather_bot ?c new_session ''is it hot today in Amsterdam?'')) =
     [Call ''WeatherChain''
        [\<lparr>msg_role = ''user'', msg_content = ''is it hot today in Amsterdam?'', msg_name = None\<rparr>],
      Chunk ''WeatherChain''
        \<lparr>delta_role = Some ''assistant'', delta_content = ''Let me check.'', delta_name = None\<rparr>,
      Chunk ''WeatherChain'' (function_call amsterdam_arguments),
      Call ''FunctionReplyChain''
        [\<lparr>msg_role = ''user'', msg_content = ''is it hot today in Amsterdam?'', msg_name = None\<rparr>,
         \<lparr>msg_role = ''assistant'', msg_content = ''Let me check.'', msg_name = None\<rparr>,
         \<lparr>msg_role = ''function'', msg_content = amsterdam_result,
           msg_name = Some ''get_current_weather''\<rparr>],
      Chunk ''FunctionReplyChain'' (assistant_reply ! 0),
      Chunk ''FunctionReplyChain'' (assistant_reply ! 1)]"
    and "Inr (history (fst (weather_bot ?c new_session ''is it hot today in Amsterdam?'')),
              assistant_reply) =
         update_deltas_on_memory
           [\<lparr>msg_role = ''user'', msg_content = ''is it hot today in Amsterdam?'', msg_name = None\<rparr>,
            \<lparr>msg_role = ''assistant'', msg_content = ''Let me check.'', msg_name = None\<rparr>,
            \<lparr>msg_role = ''function'', msg_content = amsterdam_result,
              msg_name = Some ''get_current_weather''\<rparr>]
           assistant_reply"
    by (simp_all add: new_session_def assistant_reply_def)
  moreover
  have "update_deltas_on_memory
           [\<lparr>msg_role = ''user'', msg_content = ''is it hot today in Amsterdam?'', msg_name = None\<rparr>,
            \<lparr>msg_role = ''assistant'', msg_content = ''Let me check.'', msg_name = None\<rparr>,
            \<lparr>msg_role = ''function'', msg_content = amsterdam_result,
              msg_name = Some ''get_current_weather''\<rparr>]
           assistant_reply =
        Inr ([\<lparr>msg_role = ''user'', msg_content = ''is it hot today in Amsterdam?'', msg_name = None\<rparr>,
              \<lparr>msg_role = ''assistant'', msg_content = ''Let me check.'', msg_name = None\<rparr>,
              \<lparr>msg_role = ''function'', msg_content = amsterdam_result,
                msg_name = Some ''get_current_weather''\<rparr>,
              \<lparr>msg_role = ''assistant'', msg_content = ''It is sunny.'', msg_name = None\<rparr>],
             assistant_reply)"
    by (simp add: assistant_reply_def update_delta_on_memory_def)
  ultimately show ?thesis
    using announced_amsterdam_weather_chain by simp
qed

text \<open>
  The specification's wording speaks of every turn. The generator of the bot served with
  FastAPI replies inside the loop that reads the first stream: given the result of the
  Amsterdam call followed by one more unit, it calls \<^verbatim>\<open>FunctionReplyChain\<close> when it has
  read the result, and reads the unit that follows only after the reply.
\<close>

theorem follow_up_after_first_stream_counterexample:
  "trace (fst (reply_function_call (example [])
      \<lparr>history =
         [\<lparr>msg_role = ''user'', msg_content = ''is it hot today in Amsterdam?'', msg_name = None\<rparr>,
          \<lparr>msg_role = ''function'', msg_content = amsterdam_result,
            msg_name = Some ''get_current_weather''\<rparr>],
       trace = []\<rparr>
      [\<lparr>delta_role = Some ''function'', delta_content = amsterdam_result,
         delta_name = Some ''get_current_weather''\<rparr>,
       \<lparr>delta_role = Some ''assistant'', delta_content = ''Bye'', delta_name = None\<rparr>])) =
     [Chunk ''WeatherChain''
        \<lparr>delta_role = Some ''function'', delta_content = amsterdam_result,
          delta_name = Some ''get_current_weather''\<rparr>,
      Call ''FunctionReplyChain''
        [\<lparr>msg_role = ''user'', msg_content = ''is it hot today in Amsterdam?'', msg_name = None\<rparr>,
         \<lparr>msg_role = ''function'', msg_content = amsterdam_result,
           msg_name = Some ''get_current_weather''\<rparr>],
      Chunk ''FunctionReplyChain'' (assistant_reply ! 0),
      Chunk ''FunctionReplyChain'' (assistant_reply ! 1),
      Chunk ''WeatherChain''
        \<lparr>delta_role = Some ''assistant'', delta_content = ''Bye'', delta_name = None\<rparr>] \<and>
   \<not> drained_before_reply
       (trace (fst (reply_function_call (example [])
      \<lparr>history =
         [\<lparr>msg_role = ''user'', msg_content = ''is it hot today in Amsterdam?'', msg_name = None\<rparr>,
          \<lparr>msg_role = ''function'', msg_content = amsterdam_result,
            msg_name = Some ''get_current_weather''\<rparr>],
       trace = []\<rparr>
      [\<lparr>delta_role = Some ''function'', delta_content = amsterdam_result,
         delta_name = Some ''get_current_weather''\<rparr>,
       \<lparr>delta_role = Some ''assistant'', delta_content = ''Bye'', delta_name = None\<rparr>])))"
proof -
  show ?thesis
    unfolding api_reply_inside_loop by simp
qed

section \<open>The Amsterdam scenario\<close>




end
